theory Spec2Isabelle
  imports Main "HOL-Library.AList"
begin

unbundle bit_operations_syntax

section \<open>Data model (types.ts)\<close>

text \<open>
  The interfaces of the privacy layer as records. TypeScript lets two interfaces share a
  field name; record fields are global constants here, so the fields of an interface carry
  a short tag of it (\<open>cred_\<close>, \<open>prof_\<close>, \<open>agent_\<close>, \<open>gate_\<close>, \<open>ac_\<close>, \<open>meta_\<close>,
  \<open>ch_\<close>, \<open>inv_\<close>, \<open>msg_\<close>, \<open>req_\<close> and so on); the small result objects of
  \<open>canAccessChannel\<close>, \<open>validateMessage\<close> and \<open>getChannelStats\<close> keep their field names.
  An optional field \<open>f?: T\<close> is a \<open>T option\<close>, \<open>None\<close> standing for \<open>undefined\<close> (and
  for the \<open>null\<close> of a record read from JSON). The capabilities of a profile are declared
  as required, but \<open>updateAgentProfile\<close> can leave the key without a value, so they are an
  option as well. A
  \<open>number\<close> is an \<open>int\<close>: every number the modelled functions compute with is a
  millisecond timestamp, a count or a score. A \<open>string\<close> is the list of its characters.
\<close>

type_synonym did = string

record NFTCredential =
  cred_contract :: string
  cred_assetId :: string
  cred_schema :: string
  cred_verified :: bool
  cred_verifiedAt :: "int option"

record AgentProfile =
  prof_name :: "string option"
  prof_capabilities :: "string list option"
  prof_reputation :: int
  prof_nftCredentials :: "NFTCredential list option"
  prof_metadata :: "(string \<times> string) list option"

record MoltbookAgent =
  agent_did :: did
  agent_publicKey :: string
  agent_createdAt :: int
  agent_profile :: AgentProfile

record EncryptionConfig =
  enc_type :: string
  enc_algorithm :: string
  enc_keyRotationInterval :: "int option"

text \<open>
  \<open>AccessControl.type\<close> is declared as one of three string literals; \<open>canAccessChannel\<close>
  nevertheless has a \<open>default\<close> branch for a record read back from storage with another
  tag, which is \<open>OtherAccess\<close> here.
\<close>

datatype AccessType = Open | InviteOnly | NftGated | OtherAccess string

record NFTGate =
  gate_contract :: string
  gate_schema :: "string option"
  gate_minAmount :: "int option"

record AccessControl =
  ac_type :: AccessType
  ac_nftGate :: "NFTGate option"
  ac_allowedDIDs :: "did list option"

record ChannelMetadata =
  meta_name :: "string option"
  meta_description :: "string option"
  meta_maxParticipants :: "int option"
  meta_ttl :: "int option"

record PrivateChannel =
  ch_id :: string
  ch_participants :: "did list"
  ch_createdAt :: int
  ch_createdBy :: did
  ch_encryption :: EncryptionConfig
  ch_accessControl :: "AccessControl option"
  ch_metadata :: "ChannelMetadata option"

datatype InvitationStatus = Pending | Accepted | Rejected | Expired

record ChannelInvitation =
  inv_id :: string
  inv_channelId :: string
  inv_inviter :: did
  inv_invitee :: did
  inv_createdAt :: int
  inv_expiresAt :: int
  inv_encryptedChannelKey :: string
  inv_status :: InvitationStatus

record EncryptedMessage =
  msg_id :: string
  msg_channelId :: string
  msg_sender :: did
  msg_timestamp :: int
  msg_nonce :: string
  msg_ciphertext :: string
  msg_ephemeralPubKey :: "string option"

text \<open>
  Every \<open>throw new Error(...)\<close> of the modelled functions is a constructor of \<open>error\<close>;
  a function that can throw returns \<open>error + 'a\<close>, with \<open>Inl\<close> for the exception.
\<close>

datatype error =
    NoParticipantGiven
  | AgentNotFound did
  | CryptoFailure
  | CannotAccept InvitationStatus
  | CannotReject InvitationStatus
  | MaxParticipantsReached
  | NotAuthorizedToRemove
  | CannotRemoveCreator
  | OnlyCreatorUpdates

text \<open>
  JavaScript truthiness of an optional number and of an optional string, as the guards
  \<open>if (x.f)\<close>, \<open>x.f && ...\<close> and \<open>!x.f\<close> read them: \<open>undefined\<close>, \<open>0\<close> and the
  empty string are falsy.
\<close>

definition truthy_num :: "int option \<Rightarrow> bool" where
  "truthy_num v = (case v of None \<Rightarrow> False | Some n \<Rightarrow> n \<noteq> 0)"

definition truthy_str :: "string option \<Rightarrow> bool" where
  "truthy_str v = (case v of None \<Rightarrow> False | Some s \<Rightarrow> s \<noteq> [])"

section \<open>Hashing and encoding (crypto.ts)\<close>

text \<open>
  \<open>sha256\<close> of crypto.ts is \<open>arrayBufferToBase64\<close> of
  \<open>crypto.subtle.digest ('SHA-256', data)\<close>. The digest is the platform's; it is written
  out here after FIPS 180-4 so that the functions built on it can be evaluated. A 32-bit
  word is an \<open>int\<close> in \<open>[0, 2^32)\<close> with the wrap-around of every addition written
  out, a byte an \<open>int\<close> in \<open>[0, 256)\<close>.
\<close>

type_synonym u32 = int
type_synonym byte = int

definition add32 :: "u32 \<Rightarrow> u32 \<Rightarrow> u32" where
  "add32 x y = (x + y) mod 4294967296"

definition shr :: "nat \<Rightarrow> u32 \<Rightarrow> u32" where
  "shr n x = x div 2 ^ n"

definition rotr :: "nat \<Rightarrow> u32 \<Rightarrow> u32" where
  "rotr n x = shr n x + (x mod 2 ^ n) * 2 ^ (32 - n)"

definition not32 :: "u32 \<Rightarrow> u32" where
  "not32 x = 4294967295 - x"

definition ch :: "u32 \<Rightarrow> u32 \<Rightarrow> u32 \<Rightarrow> u32" where
  "ch x y z = (x AND y) XOR (not32 x AND z)"

definition maj :: "u32 \<Rightarrow> u32 \<Rightarrow> u32 \<Rightarrow> u32" where
  "maj x y z = (x AND y) XOR (x AND z) XOR (y AND z)"

definition bsig0 :: "u32 \<Rightarrow> u32" where
  "bsig0 x = rotr 2 x XOR rotr 13 x XOR rotr 22 x"

definition bsig1 :: "u32 \<Rightarrow> u32" where
  "bsig1 x = rotr 6 x XOR rotr 11 x XOR rotr 25 x"

definition ssig0 :: "u32 \<Rightarrow> u32" where
  "ssig0 x = rotr 7 x XOR rotr 18 x XOR shr 3 x"

definition ssig1 :: "u32 \<Rightarrow> u32" where
  "ssig1 x = rotr 17 x XOR rotr 19 x XOR shr 10 x"

text \<open>The round constants, eight to a row.\<close>

definition K256 :: "u32 list" where
  "K256 = concat
    [[0x428a2f98, 0x71374491, 0xb5c0fbcf, 0xe9b5dba5, 0x3956c25b, 0x59f111f1, 0x923f82a4, 0xab1c5ed5],
     [0xd807aa98, 0x12835b01, 0x243185be, 0x550c7dc3, 0x72be5d74, 0x80deb1fe, 0x9bdc06a7, 0xc19bf174],
     [0xe49b69c1, 0xefbe4786, 0x0fc19dc6, 0x240ca1cc, 0x2de92c6f, 0x4a7484aa, 0x5cb0a9dc, 0x76f988da],
     [0x983e5152, 0xa831c66d, 0xb00327c8, 0xbf597fc7, 0xc6e00bf3, 0xd5a79147, 0x06ca6351, 0x14292967],
     [0x27b70a85, 0x2e1b2138, 0x4d2c6dfc, 0x53380d13, 0x650a7354, 0x766a0abb, 0x81c2c92e, 0x92722c85],
     [0xa2bfe8a1, 0xa81a664b, 0xc24b8b70, 0xc76c51a3, 0xd192e819, 0xd6990624, 0xf40e3585, 0x106aa070],
     [0x19a4c116, 0x1e376c08, 0x2748774c, 0x34b0bcb5, 0x391c0cb3, 0x4ed8aa4a, 0x5b9cca4f, 0x682e6ff3],
     [0x748f82ee, 0x78a5636f, 0x84c87814, 0x8cc70208, 0x90befffa, 0xa4506ceb, 0xbef9a3f7, 0xc67178f2]]"

type_synonym hstate = "u32 \<times> u32 \<times> u32 \<times> u32 \<times> u32 \<times> u32 \<times> u32 \<times> u32"

definition H256 :: hstate where
  "H256 = (0x6a09e667, 0xbb67ae85, 0x3c6ef372, 0xa54ff53a,
           0x510e527f, 0x9b05688c, 0x1f83d9ab, 0x5be0cd19)"

text \<open>The message schedule keeps a window of the last 16 words, the newest first.\<close>

definition next_word :: "u32 list \<Rightarrow> u32" where
  "next_word win =
     add32 (add32 (add32 (ssig1 (win ! 1)) (win ! 6)) (ssig0 (win ! 14))) (win ! 15)"

fun schedule :: "nat \<Rightarrow> u32 list \<Rightarrow> u32 list" where
  "schedule 0 win = []"
| "schedule (Suc n) win = next_word win # schedule n (next_word win # take 15 win)"

definition round1 :: "u32 \<Rightarrow> u32 \<Rightarrow> hstate \<Rightarrow> hstate" where
  "round1 k w = (\<lambda>(a, b, c, d, e, f, g, h).
     (let t1 = add32 (add32 (add32 (add32 h (bsig1 e)) (ch e f g)) k) w;
          t2 = add32 (bsig0 a) (maj a b c)
      in (add32 t1 t2, a, b, c, add32 d t1, e, f, g)))"

fun rounds :: "u32 list \<Rightarrow> u32 list \<Rightarrow> hstate \<Rightarrow> hstate" where
  "rounds (k # ks) (w # ws) st = rounds ks ws (round1 k w st)"
| "rounds ks ws st = st"

definition add_state :: "hstate \<Rightarrow> hstate \<Rightarrow> hstate" where
  "add_state = (\<lambda>(a, b, c, d, e, f, g, h) (a', b', c', d', e', f', g', h').
     (add32 a a', add32 b b', add32 c c', add32 d d',
      add32 e e', add32 f f', add32 g g', add32 h h'))"

fun be32 :: "byte list \<Rightarrow> u32 list" where
  "be32 (a # b # c # d # rest) = (a * 16777216 + b * 65536 + c * 256 + d) # be32 rest"
| "be32 rest = []"

definition compress :: "hstate \<Rightarrow> byte list \<Rightarrow> hstate" where
  "compress hs block =
     (let w16 = be32 block
      in add_state hs (rounds K256 (w16 @ schedule 48 (rev w16)) hs))"

function blocks :: "hstate \<Rightarrow> byte list \<Rightarrow> hstate" where
  "blocks hs bs =
     (if length bs < 64 then hs else blocks (compress hs (take 64 bs)) (drop 64 bs))"
  by pat_completeness auto
termination
  by (relation "measure (\<lambda>(hs, bs). length bs)") auto

definition length_bytes :: "int \<Rightarrow> byte list" where
  "length_bytes n = map (\<lambda>i. (n div 256 ^ (7 - i)) mod 256) [0..<8]"

definition pad :: "byte list \<Rightarrow> byte list" where
  "pad m = m @ [128] @ replicate ((119 - length m mod 64) mod 64) 0
             @ length_bytes (8 * int (length m))"

definition word_bytes :: "u32 \<Rightarrow> byte list" where
  "word_bytes w = [w div 16777216, (w div 65536) mod 256, (w div 256) mod 256, w mod 256]"

definition sha256_digest :: "byte list \<Rightarrow> byte list" where
  "sha256_digest m =
     (case blocks H256 (pad m) of (a, b, c, d, e, f, g, h) \<Rightarrow>
        concat (map word_bytes [a, b, c, d, e, f, g, h]))"

text \<open>
  \<open>new TextEncoder().encode\<close>: a \<open>string\<close> is taken as the list of the bytes of its
  UTF-8 encoding (the keys of the examples are ASCII).
\<close>

definition utf8 :: "string \<Rightarrow> byte list" where
  "utf8 s = map (\<lambda>c. of_char c) s"

text \<open>
  \<open>arrayBufferToBase64\<close>: the bytes go through \<open>btoa\<close>, the standard alphabet with
  padding.
\<close>

definition b64_alphabet :: string where
  "b64_alphabet = ''ABCDEFGHIJKLMNOPQRSTUVWXYZabcdefghijklmnopqrstuvwxyz0123456789+/''"

definition b64 :: "int \<Rightarrow> char" where
  "b64 i = b64_alphabet ! nat i"

fun arrayBufferToBase64 :: "byte list \<Rightarrow> string" where
  "arrayBufferToBase64 (a # b # c # rest) =
     [b64 (a div 4), b64 ((a mod 4) * 16 + b div 16), b64 ((b mod 16) * 4 + c div 64),
      b64 (c mod 64)] @ arrayBufferToBase64 rest"
| "arrayBufferToBase64 [a, b] =
     [b64 (a div 4), b64 ((a mod 4) * 16 + b div 16), b64 ((b mod 16) * 4), CHR ''='']"
| "arrayBufferToBase64 [a] = [b64 (a div 4), b64 ((a mod 4) * 16), CHR ''='', CHR ''='']"
| "arrayBufferToBase64 [] = []"

definition sha256 :: "string \<Rightarrow> string" where
  "sha256 data = arrayBufferToBase64 (sha256_digest (utf8 data))"

text \<open>
  \<open>generateId\<close> writes each of its 16 random bytes as two lowercase hexadecimal digits
  (\<open>b.toString (16).padStart (2, '0')\<close>) and puts the prefix, when there is one, in front.
  The bytes are an argument.
\<close>

definition hex_digit :: "int \<Rightarrow> char" where
  "hex_digit i = ''0123456789abcdef'' ! nat i"

definition hex_of_bytes :: "byte list \<Rightarrow> string" where
  "hex_of_bytes bs = concat (map (\<lambda>b. [hex_digit (b div 16), hex_digit (b mod 16)]) bs)"

definition generateId :: "string \<Rightarrow> byte list \<Rightarrow> string" where
  "generateId prefix bytes =
     (let ident = hex_of_bytes bytes in if prefix \<noteq> [] then prefix @ ''-'' @ ident else ident)"

section \<open>Identity (did.ts)\<close>

definition DID_METHOD :: string where
  "DID_METHOD = ''moltbook''"

definition DID_PREFIX :: string where
  "DID_PREFIX = ''did:'' @ DID_METHOD @ '':''"

definition generateDID :: "string \<Rightarrow> did" where
  "generateDID publicKey = DID_PREFIX @ take 32 (sha256 publicKey)"

text \<open>
  \<open>String.prototype.split\<close> on a one-character separator; the empty string gives one
  empty part.
\<close>

fun split_on :: "char \<Rightarrow> string \<Rightarrow> string list" where
  "split_on sep [] = [[]]"
| "split_on sep (c # cs) =
     (if c = sep then [] # split_on sep cs
      else (case split_on sep cs of [] \<Rightarrow> [[c]] | p # ps \<Rightarrow> (c # p) # ps))"

record ParsedDID =
  did_method :: string
  did_identifier :: string

definition parseDID :: "did \<Rightarrow> ParsedDID option" where
  "parseDID d =
     (if take 4 d \<noteq> ''did:'' then None
      else let parts = split_on CHR '':'' d in
        if length parts \<noteq> 3 then None
        else Some \<lparr>did_method = parts ! 1, did_identifier = parts ! 2\<rparr>)"

text \<open>
  The regular expression \<open>/^[a-f0-9]{32}$/\<close>: 32 characters, each of \<open>a\<close>..\<open>f\<close> or
  a digit.
\<close>

definition lower_hex_char :: "char \<Rightarrow> bool" where
  "lower_hex_char c = (c \<in> set ''abcdef0123456789'')"

definition hex32 :: "string \<Rightarrow> bool" where
  "hex32 s = (length s = 32 \<and> list_all lower_hex_char s)"

definition isValidDID :: "did \<Rightarrow> bool" where
  "isValidDID d =
     (case parseDID d of None \<Rightarrow> False
      | Some parsed \<Rightarrow>
          if did_method parsed \<noteq> DID_METHOD then False
          else if \<not> hex32 (did_identifier parsed) then False
          else True)"

text \<open>
  \<open>Partial<AgentProfile>\<close>, the argument of \<open>updateAgentProfile\<close>, which the route
  \<open>PATCH /agents/:did\<close> fills with the JSON body of the request. A key of the profile is
  not in the update (\<open>Unset\<close>), in it without a value, that is with \<open>undefined\<close> or
  \<open>null\<close> (\<open>Cleared\<close>), or in it with a value (\<open>Given\<close>).
\<close>

datatype 'a update_key = Unset | Cleared | Given 'a

record ProfileUpdates =
  upd_name :: "string update_key"
  upd_capabilities :: "string list update_key"
  upd_reputation :: "int update_key"
  upd_nftCredentials :: "NFTCredential list update_key"
  upd_metadata :: "(string \<times> string) list update_key"

text \<open>
  One key of the object spread \<open>{...agent.profile, ...updates}\<close>: a key of the update
  overrides that of the profile, also when it has no value.
\<close>

definition spread_key :: "'a option \<Rightarrow> 'a update_key \<Rightarrow> 'a option" where
  "spread_key old k = (case k of Unset \<Rightarrow> old | Cleared \<Rightarrow> None | Given v \<Rightarrow> Some v)"

text \<open>
  The object literal of \<open>updateAgentProfile\<close> ends with
  \<open>reputation: agent.profile.reputation\<close>, which decides the reputation of the result
  whatever the spread has put under that key.
\<close>

definition updateAgentProfile :: "MoltbookAgent \<Rightarrow> ProfileUpdates \<Rightarrow> MoltbookAgent" where
  "updateAgentProfile agent updates =
     agent\<lparr>agent_profile :=
       \<lparr>prof_name = spread_key (prof_name (agent_profile agent)) (upd_name updates),
        prof_capabilities =
          spread_key (prof_capabilities (agent_profile agent)) (upd_capabilities updates),
        prof_reputation = prof_reputation (agent_profile agent),
        prof_nftCredentials =
          spread_key (prof_nftCredentials (agent_profile agent)) (upd_nftCredentials updates),
        prof_metadata =
          spread_key (prof_metadata (agent_profile agent)) (upd_metadata updates)\<rparr>\<rparr>"

definition adjustReputation :: "MoltbookAgent \<Rightarrow> int \<Rightarrow> MoltbookAgent" where
  "adjustReputation agent delta =
     (let newReputation = max 0 (min 100 (prof_reputation (agent_profile agent) + delta))
      in agent\<lparr>agent_profile := (agent_profile agent)\<lparr>prof_reputation := newReputation\<rparr>\<rparr>)"

text \<open>\<open>agent.profile.nftCredentials || []\<close>.\<close>

definition credentials_of :: "MoltbookAgent \<Rightarrow> NFTCredential list" where
  "credentials_of agent =
     (case prof_nftCredentials (agent_profile agent) of None \<Rightarrow> [] | Some cs \<Rightarrow> cs)"

definition addNFTCredential :: "MoltbookAgent \<Rightarrow> string \<Rightarrow> string \<Rightarrow> string \<Rightarrow> MoltbookAgent" where
  "addNFTCredential agent contract assetId schema =
     (let nftCredentials = credentials_of agent;
          exists = list_ex (\<lambda>c. cred_contract c = contract \<and> cred_assetId c = assetId)
                     nftCredentials
      in if exists then agent
         else agent\<lparr>agent_profile := (agent_profile agent)\<lparr>prof_nftCredentials :=
                Some (nftCredentials @
                  [\<lparr>cred_contract = contract, cred_assetId = assetId, cred_schema = schema,
                    cred_verified = False, cred_verifiedAt = None\<rparr>])\<rparr>\<rparr>)"

definition verifyNFTCredential :: "int \<Rightarrow> MoltbookAgent \<Rightarrow> string \<Rightarrow> string \<Rightarrow> MoltbookAgent" where
  "verifyNFTCredential now agent contract assetId =
     agent\<lparr>agent_profile := (agent_profile agent)\<lparr>prof_nftCredentials :=
       Some (map (\<lambda>c. if cred_contract c = contract \<and> cred_assetId c = assetId
                       then c\<lparr>cred_verified := True, cred_verifiedAt := Some now\<rparr> else c)
               (credentials_of agent))\<rparr>\<rparr>"

definition hasVerifiedNFT :: "MoltbookAgent \<Rightarrow> string \<Rightarrow> string option \<Rightarrow> bool" where
  "hasVerifiedNFT agent contract schema =
     list_ex (\<lambda>c. if \<not> cred_verified c then False
                  else if cred_contract c \<noteq> contract then False
                  else if truthy_str schema \<and> cred_schema c \<noteq> the schema then False
                  else True)
       (credentials_of agent)"

section \<open>Access control (channels.ts)\<close>

record AccessDecision =
  allowed :: bool
  reason :: "string option"

text \<open>A number inside a template literal: its decimal digits, with a sign when negative.\<close>

function string_of_nat :: "nat \<Rightarrow> string" where
  "string_of_nat n =
     (if n < 10 then [char_of (48 + n)]
      else string_of_nat (n div 10) @ [char_of (48 + n mod 10)])"
  by pat_completeness auto
termination
  by (relation "measure id") auto

declare string_of_nat.simps [simp del]

definition string_of_int :: "int \<Rightarrow> string" where
  "string_of_int i =
     (if i < 0 then CHR ''-'' # string_of_nat (nat (- i)) else string_of_nat (nat i))"

text \<open>The filter of the minimum-amount check: the verified credentials that match the gate.\<close>

definition gate_matches :: "NFTGate \<Rightarrow> NFTCredential \<Rightarrow> bool" where
  "gate_matches g c =
     (cred_verified c \<and> cred_contract c = gate_contract g
      \<and> (\<not> truthy_str (gate_schema g) \<or> cred_schema c = the (gate_schema g)))"

definition canAccessChannel :: "PrivateChannel \<Rightarrow> MoltbookAgent \<Rightarrow> AccessDecision" where
  "canAccessChannel channel agent =
     (if agent_did agent \<in> set (ch_participants channel)
        then \<lparr>allowed = True, reason = None\<rparr>
      else case ch_accessControl channel of
        None \<Rightarrow> \<lparr>allowed = False, reason = Some ''Not a participant''\<rparr>
      | Some accessControl \<Rightarrow>
         (case ac_type accessControl of
            Open \<Rightarrow> \<lparr>allowed = True, reason = None\<rparr>
          | InviteOnly \<Rightarrow>
              (case ac_allowedDIDs accessControl of
                 None \<Rightarrow> \<lparr>allowed = False, reason = Some ''Invite required''\<rparr>
               | Some dids \<Rightarrow>
                   if agent_did agent \<in> set dids then \<lparr>allowed = True, reason = None\<rparr>
                   else \<lparr>allowed = False, reason = Some ''Invite required''\<rparr>)
          | NftGated \<Rightarrow>
              (case ac_nftGate accessControl of
                 None \<Rightarrow> \<lparr>allowed = False, reason = Some ''NFT gate not configured''\<rparr>
               | Some nftGate \<Rightarrow>
                   if \<not> hasVerifiedNFT agent (gate_contract nftGate) (gate_schema nftGate)
                     then \<lparr>allowed = False, reason = Some ''Required NFT not found''\<rparr>
                   else if truthy_num (gate_minAmount nftGate)
                           \<and> int (length (filter (gate_matches nftGate) (credentials_of agent)))
                               < the (gate_minAmount nftGate)
                     then \<lparr>allowed = False,
                           reason = Some (''Requires at least ''
                                      @ string_of_int (the (gate_minAmount nftGate)) @ '' NFTs'')\<rparr>
                   else \<lparr>allowed = True, reason = None\<rparr>)
          | OtherAccess t \<Rightarrow> \<lparr>allowed = False, reason = Some ''Unknown access control type''\<rparr>))"

section \<open>Invitation state machine (channels.ts)\<close>

text \<open>\<open>Date.now()\<close> is the argument \<open>now\<close>.\<close>

definition acceptInvitation :: "int \<Rightarrow> ChannelInvitation \<Rightarrow> error + ChannelInvitation" where
  "acceptInvitation now invitation =
     (if inv_status invitation \<noteq> Pending then Inl (CannotAccept (inv_status invitation))
      else if now > inv_expiresAt invitation then Inr (invitation\<lparr>inv_status := Expired\<rparr>)
      else Inr (invitation\<lparr>inv_status := Accepted\<rparr>))"

definition rejectInvitation :: "ChannelInvitation \<Rightarrow> error + ChannelInvitation" where
  "rejectInvitation invitation =
     (if inv_status invitation \<noteq> Pending then Inl (CannotReject (inv_status invitation))
      else Inr (invitation\<lparr>inv_status := Rejected\<rparr>))"

section \<open>Participant edits (channels.ts)\<close>

text \<open>
  \<open>channel.metadata?.maxParticipants\<close> is \<open>undefined\<close> when the channel has no metadata.
\<close>

definition maxParticipants_of :: "PrivateChannel \<Rightarrow> int option" where
  "maxParticipants_of channel =
     (case ch_metadata channel of None \<Rightarrow> None | Some m \<Rightarrow> meta_maxParticipants m)"

definition addParticipant :: "PrivateChannel \<Rightarrow> did \<Rightarrow> error + PrivateChannel" where
  "addParticipant channel participantDID =
     (if participantDID \<in> set (ch_participants channel) then Inr channel
      else if truthy_num (maxParticipants_of channel)
              \<and> int (length (ch_participants channel)) \<ge> the (maxParticipants_of channel)
           then Inl MaxParticipantsReached
      else Inr (channel\<lparr>ch_participants := ch_participants channel @ [participantDID]\<rparr>))"

definition removeParticipant :: "PrivateChannel \<Rightarrow> did \<Rightarrow> did \<Rightarrow> error + PrivateChannel" where
  "removeParticipant channel participantDID removerDID =
     (if ch_createdBy channel \<noteq> removerDID \<and> participantDID \<noteq> removerDID
        then Inl NotAuthorizedToRemove
      else if participantDID = ch_createdBy channel then Inl CannotRemoveCreator
      else Inr (channel\<lparr>ch_participants :=
                  filter (\<lambda>p. p \<noteq> participantDID) (ch_participants channel)\<rparr>))"

definition updateAccessControl ::
  "PrivateChannel \<Rightarrow> AccessControl \<Rightarrow> did \<Rightarrow> error + PrivateChannel" where
  "updateAccessControl channel accessControl updaterDID =
     (if ch_createdBy channel \<noteq> updaterDID then Inl OnlyCreatorUpdates
      else Inr (channel\<lparr>ch_accessControl := Some accessControl\<rparr>))"

section \<open>Channel creation (channels.ts)\<close>

text \<open>
  What \<open>createChannel\<close> takes from the platform, in the order of its calls:
  \<^item> \<open>plat_clock k\<close>, the reading of the \<open>k\<close>-th call of \<open>Date.now()\<close>;
  \<^item> \<open>plat_random k\<close>, the 16 bytes \<open>crypto.getRandomValues\<close> hands to the \<open>k\<close>-th call of
    \<open>generateId\<close>;
  \<^item> \<open>plat_wrap k pub priv\<close>, the \<open>k\<close>-th call of \<open>encryptChannelKeyForRecipient\<close> (for
    the fresh channel key, the recipient's public key and the sender's private key) followed
    by \<open>JSON.stringify\<close>. Decoding and importing the two keys throws on malformed input, so
    the result is an \<open>error + string\<close>.
  \<open>generateChannelKey\<close> and \<open>exportChannelKey\<close> are taken to succeed; the exported key is
  not used. The lookup \<open>getAgent\<close> is a function of the DID: the registry does not change
  while \<open>createChannel\<close> runs, so the second lookup of a DID answers as the first.
\<close>

record Platform =
  plat_clock :: "nat \<Rightarrow> int"
  plat_random :: "nat \<Rightarrow> byte list"
  plat_wrap :: "nat \<Rightarrow> string \<Rightarrow> string \<Rightarrow> error + string"

record PartialEncryption =
  penc_keyRotationInterval :: "int option"

record CreateChannelRequest =
  req_participants :: "did list option"
  req_encryption :: "PartialEncryption option"
  req_accessControl :: "AccessControl option"
  req_metadata :: "ChannelMetadata option"

record CreateChannelResponse =
  resp_channel :: PrivateChannel
  resp_invitations :: "ChannelInvitation list"

definition SEVEN_DAYS :: int where
  "SEVEN_DAYS = 7 * 24 * 60 * 60 * 1000"

text \<open>
  The second loop of \<open>createChannel\<close>. \<open>j\<close> counts the invitations built so far: the
  \<open>j\<close>-th invitation takes the wrapped key of call \<open>j\<close>, the identifier of call \<open>j + 1\<close>
  (call \<open>0\<close> named the channel) and the clock readings \<open>2j + 1\<close> for \<open>createdAt\<close> and
  \<open>2j + 2\<close> for \<open>expiresAt\<close> (reading \<open>0\<close> dated the channel).
\<close>

fun build_invitations ::
  "Platform \<Rightarrow> (did \<Rightarrow> MoltbookAgent option) \<Rightarrow> did \<Rightarrow> string \<Rightarrow> string \<Rightarrow> nat \<Rightarrow> did list
     \<Rightarrow> error + ChannelInvitation list" where
  "build_invitations p getAgent creatorDID creatorPrivateKey channelId j [] = Inr []"
| "build_invitations p getAgent creatorDID creatorPrivateKey channelId j (d # rest) =
     (if d = creatorDID
        then build_invitations p getAgent creatorDID creatorPrivateKey channelId j rest
      else case getAgent d of
        None \<Rightarrow> build_invitations p getAgent creatorDID creatorPrivateKey channelId j rest
      | Some agent \<Rightarrow>
         (case plat_wrap p j (agent_publicKey agent) creatorPrivateKey of
            Inl e \<Rightarrow> Inl e
          | Inr wrapped \<Rightarrow>
             (case build_invitations p getAgent creatorDID creatorPrivateKey channelId (Suc j) rest of
                Inl e \<Rightarrow> Inl e
              | Inr invitations \<Rightarrow>
                  Inr (\<lparr>inv_id = generateId ''inv'' (plat_random p (Suc j)),
                        inv_channelId = channelId,
                        inv_inviter = creatorDID,
                        inv_invitee = d,
                        inv_createdAt = plat_clock p (2 * j + 1),
                        inv_expiresAt = plat_clock p (2 * j + 2) + SEVEN_DAYS,
                        inv_encryptedChannelKey = wrapped,
                        inv_status = Pending\<rparr> # invitations))))"

text \<open>The participant list and the channel record that \<open>createChannel\<close> builds.\<close>

definition allParticipants :: "did \<Rightarrow> did list \<Rightarrow> did list" where
  "allParticipants creatorDID participants =
     (if creatorDID \<in> set participants then participants else creatorDID # participants)"

definition new_channel :: "Platform \<Rightarrow> CreateChannelRequest \<Rightarrow> did \<Rightarrow> did list \<Rightarrow> PrivateChannel" where
  "new_channel p request creatorDID participants =
     \<lparr>ch_id = generateId ''ch'' (plat_random p 0),
      ch_participants = participants,
      ch_createdAt = plat_clock p 0,
      ch_createdBy = creatorDID,
      ch_encryption =
        \<lparr>enc_type = ''e2ee'',
         enc_algorithm = ''x25519-xsalsa20-poly1305'',
         enc_keyRotationInterval =
           (case req_encryption request of None \<Rightarrow> None
            | Some e \<Rightarrow> penc_keyRotationInterval e)\<rparr>,
      ch_accessControl =
        (case req_accessControl request of
           None \<Rightarrow> Some \<lparr>ac_type = InviteOnly, ac_nftGate = None, ac_allowedDIDs = None\<rparr>
         | Some a \<Rightarrow> Some a),
      ch_metadata = req_metadata request\<rparr>"

definition createChannel ::
  "Platform \<Rightarrow> (did \<Rightarrow> MoltbookAgent option) \<Rightarrow> CreateChannelRequest \<Rightarrow> did \<Rightarrow> string
     \<Rightarrow> error + CreateChannelResponse" where
  "createChannel p getAgent request creatorDID creatorPrivateKey =
     (case req_participants request of
        None \<Rightarrow> Inl NoParticipantGiven
      | Some participants \<Rightarrow>
          if length participants = 0 then Inl NoParticipantGiven
          else case find (\<lambda>d. Option.is_none (getAgent d))
                      (allParticipants creatorDID participants) of
                 Some d \<Rightarrow> Inl (AgentNotFound d)
               | None \<Rightarrow>
                  (let channel = new_channel p request creatorDID
                                   (allParticipants creatorDID participants)
                   in case build_invitations p getAgent creatorDID creatorPrivateKey
                             (ch_id channel) 0 (allParticipants creatorDID participants) of
                        Inl e \<Rightarrow> Inl e
                      | Inr invitations \<Rightarrow>
                          Inr \<lparr>resp_channel = channel, resp_invitations = invitations\<rparr>))"

section \<open>Messages (channels.ts)\<close>

text \<open>
  A send request as it arrives in the body of the request: \<open>validateMessage\<close> tests the
  three required fields for presence, so each may be absent here.
\<close>

record SendMessageRequest =
  req_channelId :: "string option"
  req_nonce :: "string option"
  req_ciphertext :: "string option"
  req_ephemeralPubKey :: "string option"

record Validation =
  valid :: bool
  error :: "string option"

definition validateMessage :: "SendMessageRequest \<Rightarrow> PrivateChannel \<Rightarrow> did \<Rightarrow> Validation" where
  "validateMessage message channel senderDID =
     (if senderDID \<notin> set (ch_participants channel)
        then \<lparr>valid = False, error = Some ''Not a channel participant''\<rparr>
      else if \<not> truthy_str (req_channelId message) \<or> \<not> truthy_str (req_nonce message)
              \<or> \<not> truthy_str (req_ciphertext message)
        then \<lparr>valid = False, error = Some ''Missing required fields''\<rparr>
      else if req_channelId message \<noteq> Some (ch_id channel)
        then \<lparr>valid = False, error = Some ''Channel ID mismatch''\<rparr>
      else \<lparr>valid = True, error = None\<rparr>)"

text \<open>
  \<open>createEncryptedMessage\<close> copies the fields of the request. The routes call it after
  \<open>validateMessage\<close> only, when the three fields are present; an absent field is written
  as the empty string here.
\<close>

definition field_text :: "string option \<Rightarrow> string" where
  "field_text v = (case v of None \<Rightarrow> [] | Some s \<Rightarrow> s)"

definition createEncryptedMessage ::
  "byte list \<Rightarrow> int \<Rightarrow> SendMessageRequest \<Rightarrow> did \<Rightarrow> EncryptedMessage" where
  "createEncryptedMessage random now request senderDID =
     \<lparr>msg_id = generateId ''msg'' random,
      msg_channelId = field_text (req_channelId request),
      msg_sender = senderDID,
      msg_timestamp = now,
      msg_nonce = field_text (req_nonce request),
      msg_ciphertext = field_text (req_ciphertext request),
      msg_ephemeralPubKey = req_ephemeralPubKey request\<rparr>"

text \<open>
  \<open>isMessageExpired\<close> reads \<open>Date.now()\<close>, the argument \<open>now\<close>; the calls that one pass
  of \<open>getChannelStats\<close> makes are taken to read the same value.
\<close>

definition ttl_of :: "PrivateChannel \<Rightarrow> int option" where
  "ttl_of channel = (case ch_metadata channel of None \<Rightarrow> None | Some m \<Rightarrow> meta_ttl m)"

definition isMessageExpired :: "int \<Rightarrow> EncryptedMessage \<Rightarrow> PrivateChannel \<Rightarrow> bool" where
  "isMessageExpired now message channel =
     (if \<not> truthy_num (ttl_of channel) then False
      else let expiresAt = msg_timestamp message + the (ttl_of channel) * 1000
           in now > expiresAt)"

record ChannelStats =
  participantCount :: nat
  messageCount :: nat
  lastActivity :: "int option"
  isNFTGated :: bool

text \<open>\<open>Math.max(...xs)\<close> on a list that the caller has found non-empty.\<close>

fun maximum :: "int list \<Rightarrow> int option" where
  "maximum [] = None"
| "maximum (x # xs) = Some (fold max xs x)"

definition getChannelStats :: "int \<Rightarrow> PrivateChannel \<Rightarrow> EncryptedMessage list \<Rightarrow> ChannelStats" where
  "getChannelStats now channel messages =
     (let validMessages = filter (\<lambda>m. \<not> isMessageExpired now m channel) messages
      in \<lparr>participantCount = length (ch_participants channel),
          messageCount = length validMessages,
          lastActivity =
            (if length validMessages > 0 then maximum (map msg_timestamp validMessages)
             else None),
          isNFTGated =
            (case ch_accessControl channel of None \<Rightarrow> False
             | Some a \<Rightarrow> ac_type a = NftGated)\<rparr>)"

section \<open>Storage (storage.ts)\<close>

text \<open>
  The bucket, one typed table per kind of record. Agents and channels are looked up by
  key only. Messages are listed by prefix as well, so they are kept as an association list
  from object key to record, in the order in which \<open>bucket.list\<close> enumerates them.
  \<open>getChannelMessages\<close> calls \<open>bucket.list\<close> once; the model lists every object under
  the prefix, and every listed object is still there when it is read.
\<close>

record Storage =
  st_agents :: "did \<rightharpoonup> MoltbookAgent"
  st_channels :: "string \<rightharpoonup> PrivateChannel"
  st_messages :: "(string \<times> EncryptedMessage) list"

definition key_channelMessagesList :: "string \<Rightarrow> string" where
  "key_channelMessagesList channelId = ''privacy/channels/'' @ channelId @ ''/messages/''"

definition key_channelMessages :: "string \<Rightarrow> string \<Rightarrow> string" where
  "key_channelMessages channelId messageId =
     ''privacy/channels/'' @ channelId @ ''/messages/'' @ messageId @ ''.json''"

definition saveMessage :: "Storage \<Rightarrow> EncryptedMessage \<Rightarrow> Storage" where
  "saveMessage st message =
     st\<lparr>st_messages :=
          AList.update (key_channelMessages (msg_channelId message) (msg_id message)) message
            (st_messages st)\<rparr>"

definition starts_with :: "string \<Rightarrow> string \<Rightarrow> bool" where
  "starts_with pre s = (take (length pre) s = pre)"

definition list_messages :: "Storage \<Rightarrow> string \<Rightarrow> EncryptedMessage list" where
  "list_messages st channelId =
     map snd (filter (\<lambda>(k, m). starts_with (key_channelMessagesList channelId) k)
                (st_messages st))"

record ListOptions =
  opt_limit :: "int option"
  opt_before :: "int option"
  opt_after :: "int option"

definition option_field :: "ListOptions option \<Rightarrow> (ListOptions \<Rightarrow> int option) \<Rightarrow> int option" where
  "option_field options f = (case options of None \<Rightarrow> None | Some opts \<Rightarrow> f opts)"

text \<open>The two \<open>continue\<close> guards of the loop of \<open>getChannelMessages\<close>, negated.\<close>

definition passes_filters :: "ListOptions option \<Rightarrow> EncryptedMessage \<Rightarrow> bool" where
  "passes_filters options message =
     (\<not> (truthy_num (option_field options opt_before)
          \<and> msg_timestamp message \<ge> the (option_field options opt_before))
      \<and> \<not> (truthy_num (option_field options opt_after)
          \<and> msg_timestamp message \<le> the (option_field options opt_after)))"

text \<open>
  \<open>Array.prototype.slice (0, n)\<close> for an integer \<open>n\<close>: a negative \<open>n\<close> counts from
  the end of the array.
\<close>

definition slice0 :: "'a list \<Rightarrow> int \<Rightarrow> 'a list" where
  "slice0 xs n = (if n < 0 then take (nat (int (length xs) + n)) xs else take (nat n) xs)"

text \<open>
  \<open>messages.sort ((a, b) => b.timestamp - a.timestamp)\<close>: a stable sort, the greatest
  timestamp first.
\<close>

definition sort_desc :: "EncryptedMessage list \<Rightarrow> EncryptedMessage list" where
  "sort_desc messages = sort_key (\<lambda>m. - msg_timestamp m) messages"

definition getChannelMessages ::
  "Storage \<Rightarrow> string \<Rightarrow> ListOptions option \<Rightarrow> EncryptedMessage list" where
  "getChannelMessages st channelId options =
     (let messages = sort_desc (filter (passes_filters options) (list_messages st channelId))
      in if truthy_num (option_field options opt_limit)
           then slice0 messages (the (option_field options opt_limit))
         else messages)"

section \<open>Routes (routes.ts)\<close>

text \<open>
  A response of the API: the HTTP status and the envelope \<open>{success, data?, error?}\<close>.
  The header \<open>X-Agent-DID\<close> is a \<open>string option\<close>, a query parameter the integer that
  \<open>parseInt\<close> reads from it, \<open>None\<close> when the parameter is absent or empty.
\<close>

record 'a Response =
  resp_status :: nat
  resp_success :: bool
  resp_data :: "'a option"
  resp_error :: "string option"

definition failure :: "nat \<Rightarrow> string \<Rightarrow> 'a Response" where
  "failure code message =
     \<lparr>resp_status = code, resp_success = False, resp_data = None, resp_error = Some message\<rparr>"

definition getAgentDID :: "string option \<Rightarrow> did option" where
  "getAgentDID header =
     (case header of None \<Rightarrow> None
      | Some d \<Rightarrow> if d = [] \<or> \<not> isValidDID d then None else Some d)"

definition requireAgent :: "Storage \<Rightarrow> string option \<Rightarrow> MoltbookAgent option" where
  "requireAgent st header =
     (case getAgentDID header of None \<Rightarrow> None | Some d \<Rightarrow> st_agents st d)"

text \<open>
  \<open>POST /channels/:id/messages\<close>. The body is \<open>Inl text\<close> when \<open>c.req.json()\<close> throws an
  error with that message, which the handler catches and answers with 400. Writes to the
  bucket are taken to succeed. The result is the response and the storage after the
  request.
\<close>

definition post_message ::
  "byte list \<Rightarrow> int \<Rightarrow> Storage \<Rightarrow> string option \<Rightarrow> string
     \<Rightarrow> string + SendMessageRequest \<Rightarrow> EncryptedMessage Response \<times> Storage" where
  "post_message random now st header channelId body =
     (case requireAgent st header of
        None \<Rightarrow> (failure 401 ''Authentication required'', st)
      | Some agent \<Rightarrow>
         (case st_channels st channelId of
            None \<Rightarrow> (failure 404 ''Channel not found'', st)
          | Some channel \<Rightarrow>
             (case body of
                Inl text \<Rightarrow> (failure 400 text, st)
              | Inr request \<Rightarrow>
                 (let validation = validateMessage request channel (agent_did agent)
                  in if \<not> valid validation
                       then (\<lparr>resp_status = 400, resp_success = False, resp_data = None,
                              resp_error = error validation\<rparr>, st)
                     else let message = createEncryptedMessage random now request (agent_did agent)
                          in (\<lparr>resp_status = 201, resp_success = True, resp_data = Some message,
                               resp_error = None\<rparr>,
                              saveMessage st message)))))"

text \<open>\<open>GET /channels/:id/messages\<close>. It reads the storage and leaves it as it is.\<close>

definition get_messages ::
  "Storage \<Rightarrow> string option \<Rightarrow> string \<Rightarrow> int option \<Rightarrow> int option \<Rightarrow> int option
     \<Rightarrow> EncryptedMessage list Response" where
  "get_messages st header channelId q_limit q_before q_after =
     (case requireAgent st header of
        None \<Rightarrow> failure 401 ''Authentication required''
      | Some agent \<Rightarrow>
         (case st_channels st channelId of
            None \<Rightarrow> failure 404 ''Channel not found''
          | Some channel \<Rightarrow>
             (let access = canAccessChannel channel agent
              in if \<not> allowed access
                   then failure 403 (case reason access of None \<Rightarrow> ''Access denied''
                                     | Some r \<Rightarrow> if r = [] then ''Access denied'' else r)
                 else let limit = (case q_limit of None \<Rightarrow> 50 | Some n \<Rightarrow> n);
                          messages = getChannelMessages st channelId
                            (Some \<lparr>opt_limit = Some (min limit 100), opt_before = q_before,
                                   opt_after = q_after\<rparr>)
                      in \<lparr>resp_status = 200, resp_success = True, resp_data = Some messages,
                          resp_error = None\<rparr>)))"

section \<open>Predicates of the specification\<close>

text \<open>
  The DID as the specification words it, for comparison with \<open>generateDID\<close>: the prefix
  followed by the first 32 characters of the digest written in lowercase hexadecimal.
\<close>

definition spec_did :: "string \<Rightarrow> did" where
  "spec_did publicKey =
     ''did:moltbook:'' @ take 32 (hex_of_bytes (sha256_digest (utf8 publicKey)))"

text \<open>
  The invariant the data model states for a channel: no DID twice among the participants
  and, when \<open>metadata.maxParticipants\<close> is set, no more participants than that.
\<close>

definition participants_ok :: "PrivateChannel \<Rightarrow> bool" where
  "participants_ok c =
     (distinct (ch_participants c)
      \<and> (case maxParticipants_of c of None \<Rightarrow> True
         | Some M \<Rightarrow> int (length (ch_participants c)) \<le> M))"

text \<open>A required field of a send request that is missing or empty.\<close>

definition absent :: "string option \<Rightarrow> bool" where
  "absent v = (v = None \<or> v = Some [])"

section \<open>Sample data\<close>

text \<open>The values of the repository's tests and of the scenarios of the specification.\<close>

definition sample_encryption :: EncryptionConfig where
  "sample_encryption =
     \<lparr>enc_type = ''e2ee'', enc_algorithm = ''x25519-xsalsa20-poly1305'',
      enc_keyRotationInterval = None\<rparr>"

definition creator_did :: did where
  "creator_did = ''did:moltbook:creator00000000000000000000000000''"

definition agent1_did :: did where
  "agent1_did = ''did:moltbook:agent1111111111111111111111111111''"

definition outsider_did :: did where
  "outsider_did = ''did:moltbook:outsider000000000000000000000000''"

text \<open>Two DIDs that \<open>isValidDID\<close> accepts, for the requests that pass through a route.\<close>

definition member_did :: did where
  "member_did = ''did:moltbook:abc123def456abc123def456abc12345''"

definition stranger_did :: did where
  "stranger_did = ''did:moltbook:00000000000000000000000000000000''"

definition mockChannel :: PrivateChannel where
  "mockChannel =
     \<lparr>ch_id = ''ch-test123'', ch_participants = [creator_did, agent1_did],
      ch_createdAt = 1700000000000, ch_createdBy = creator_did,
      ch_encryption = sample_encryption,
      ch_accessControl = Some \<lparr>ac_type = InviteOnly, ac_nftGate = None, ac_allowedDIDs = None\<rparr>,
      ch_metadata = None\<rparr>"

definition limit2 :: ChannelMetadata where
  "limit2 = \<lparr>meta_name = None, meta_description = None, meta_maxParticipants = Some 2,
             meta_ttl = None\<rparr>"

definition limitedChannel :: PrivateChannel where
  "limitedChannel = mockChannel\<lparr>ch_metadata := Some limit2\<rparr>"

definition pendingInvitation :: ChannelInvitation where
  "pendingInvitation =
     \<lparr>inv_id = ''inv-123'', inv_channelId = ''ch-test'', inv_inviter = ''did:moltbook:inviter'',
      inv_invitee = ''did:moltbook:invitee'', inv_createdAt = 1700000000000,
      inv_expiresAt = 1700604800000, inv_encryptedChannelKey = ''encrypted-key'',
      inv_status = Pending\<rparr>"

definition sample_profile :: AgentProfile where
  "sample_profile =
     \<lparr>prof_name = None, prof_capabilities = Some [''test''], prof_reputation = 50,
      prof_nftCredentials = None, prof_metadata = None\<rparr>"

definition agent_named :: "did \<Rightarrow> string \<Rightarrow> MoltbookAgent" where
  "agent_named d k =
     \<lparr>agent_did = d, agent_publicKey = k, agent_createdAt = 1700000000000,
      agent_profile = sample_profile\<rparr>"

definition mockAgent :: MoltbookAgent where
  "mockAgent = agent_named agent1_did ''agent1-public-key''"

definition no_updates :: ProfileUpdates where
  "no_updates = \<lparr>upd_name = Unset, upd_capabilities = Unset, upd_reputation = Unset,
                 upd_nftCredentials = Unset, upd_metadata = Unset\<rparr>"

definition sample_credential :: "bool \<Rightarrow> NFTCredential" where
  "sample_credential v =
     \<lparr>cred_contract = ''atomicassets'', cred_assetId = ''12345'',
      cred_schema = ''moltbook.agent'', cred_verified = v,
      cred_verifiedAt = (if v then Some 1700000000000 else None)\<rparr>"

definition agent_holding :: "NFTCredential list \<Rightarrow> MoltbookAgent" where
  "agent_holding cs =
     mockAgent\<lparr>agent_profile := sample_profile\<lparr>prof_nftCredentials := Some cs\<rparr>\<rparr>"

definition sample_gate :: NFTGate where
  "sample_gate = \<lparr>gate_contract = ''atomicassets'', gate_schema = Some ''moltbook.agent'',
                  gate_minAmount = None\<rparr>"

definition gated_by :: "NFTGate option \<Rightarrow> PrivateChannel" where
  "gated_by gate =
     mockChannel\<lparr>ch_participants := [creator_did],
       ch_accessControl :=
         Some \<lparr>ac_type = NftGated, ac_nftGate = gate, ac_allowedDIDs = None\<rparr>\<rparr>"

definition nftChannel :: PrivateChannel where
  "nftChannel = gated_by (Some sample_gate)"

text \<open>
  A registry that knows the three agents of the tests, and a platform whose clock advances
  by a millisecond at every reading and whose key wrapping accepts every key.
\<close>

definition sample_getAgent :: "did \<Rightarrow> MoltbookAgent option" where
  "sample_getAgent d =
     (if d = creator_did then Some (agent_named creator_did ''creator-public-key'')
      else if d = agent1_did then Some (agent_named agent1_did ''agent1-public-key'')
      else if d = outsider_did then Some (agent_named outsider_did ''outsider-public-key'')
      else None)"

definition sample_platform :: Platform where
  "sample_platform =
     \<lparr>plat_clock = (\<lambda>k. 1700000000000 + int k),
      plat_random = (\<lambda>k. replicate 16 (int k)),
      plat_wrap = (\<lambda>k pub priv. Inr (''wrapped:'' @ pub))\<rparr>"

text \<open>
  \<open>deriveSharedSecret\<close> decodes the two keys with \<open>atob\<close> and imports the private key
  as PKCS #8 and the public key as a raw X25519 key: 32 bytes, 43 characters of base64 and
  one of padding, for the public key; 48 bytes that begin with the fixed header of an
  X25519 key, 64 characters of base64, for the private key. The platform below refuses
  every key that is not of this form, and the registry below gives the three agents keys
  of this form.
\<close>

definition base64_of_length :: "nat \<Rightarrow> nat \<Rightarrow> string \<Rightarrow> bool" where
  "base64_of_length body padding s =
     (length s = body + padding
      \<and> list_all (\<lambda>ch. ch \<in> set b64_alphabet) (take body s)
      \<and> drop body s = replicate padding CHR ''='')"

definition x25519_public :: "string \<Rightarrow> bool" where
  "x25519_public s = base64_of_length 43 1 s"

definition x25519_private :: "string \<Rightarrow> bool" where
  "x25519_private s = (base64_of_length 64 0 s \<and> take 21 s = ''MC4CAQAwBQYDK2VuBCIEI'')"

definition strict_platform :: Platform where
  "strict_platform =
     sample_platform\<lparr>plat_wrap := (\<lambda>k pub priv.
        if x25519_public pub \<and> x25519_private priv then Inr (''wrapped:'' @ pub)
        else Inl CryptoFailure)\<rparr>"

definition creator_key :: string where
  "creator_key = ''MC4CAQAwBQYDK2VuBCIEIN0PAeHMgTjHdZlzRopRIKTB8KzHaARmPEBw/RytIyGY''"

definition keyed_getAgent :: "did \<Rightarrow> MoltbookAgent option" where
  "keyed_getAgent d =
     (if d = creator_did
        then Some (agent_named creator_did ''29wLHrJtW7EtJ7suxdDGeNQ4K2GClmdqDWC1+sIZUIU='')
      else if d = agent1_did
        then Some (agent_named agent1_did ''vnGBjfjcdPTOb4atBb69+PcxdEHyo3LqqRj7MKGJW8I='')
      else if d = outsider_did
        then Some (agent_named outsider_did ''bcVgqGDQ3bxOSwwR2w/ZziKkTjYbzySTu4Y4VpgpyBg='')
      else None)"

definition request_for :: "did list \<Rightarrow> ChannelMetadata option \<Rightarrow> CreateChannelRequest" where
  "request_for ds m =
     \<lparr>req_participants = Some ds, req_encryption = None, req_accessControl = None,
      req_metadata = m\<rparr>"

text \<open>
  A channel with a TTL of 60 seconds holding two messages, one stamped 120 seconds before
  the other.
\<close>

definition ttl60 :: ChannelMetadata where
  "ttl60 = \<lparr>meta_name = None, meta_description = None, meta_maxParticipants = None,
            meta_ttl = Some 60\<rparr>"

definition ttlChannel :: PrivateChannel where
  "ttlChannel =
     mockChannel\<lparr>ch_participants := [creator_did, member_did], ch_metadata := Some ttl60\<rparr>"

definition message_at :: "string \<Rightarrow> int \<Rightarrow> EncryptedMessage" where
  "message_at i t =
     \<lparr>msg_id = i, msg_channelId = ''ch-test123'', msg_sender = member_did, msg_timestamp = t,
      msg_nonce = ''nonce'', msg_ciphertext = ''cipher'', msg_ephemeralPubKey = None\<rparr>"

definition sample_storage :: Storage where
  "sample_storage =
     \<lparr>st_agents = [member_did \<mapsto> agent_named member_did ''member-public-key'',
                   stranger_did \<mapsto> agent_named stranger_did ''stranger-public-key''],
      st_channels = [''ch-test123'' \<mapsto> ttlChannel],
      st_messages =
        [(key_channelMessages ''ch-test123'' ''msg-1'', message_at ''msg-1'' 1699999880000),
         (key_channelMessages ''ch-test123'' ''msg-2'', message_at ''msg-2'' 1700000000000)]\<rparr>"

definition send_request :: "string \<Rightarrow> string \<Rightarrow> SendMessageRequest" where
  "send_request cid nonce =
     \<lparr>req_channelId = Some cid, req_nonce = Some nonce,
      req_ciphertext = Some ''encrypted-content'', req_ephemeralPubKey = None\<rparr>"


section \<open>DID derivation\<close>

lemma digest_test_key:
  "sha256_digest (utf8 ''test-public-key-base64'') =
     [17, 139, 215, 187, 130, 143, 83, 168, 92, 4, 189, 233, 149, 59, 153, 38,
      165, 174, 184, 150, 137, 204, 58, 43, 235, 173, 106, 16, 53, 96, 146, 118]"
  by code_simp

text \<open>
  Claim C1. For every public key \<open>pk\<close>, \<open>generateDID pk\<close> is \<open>did:moltbook:\<close> followed by
  the first 32 lowercase hexadecimal characters of SHA-256 of \<open>pk\<close>, and \<open>isValidDID\<close>
  accepts it. The code does not do this: \<open>sha256\<close> returns the digest in base64, and
  \<open>generateDID\<close> keeps the first 32 characters of that. At the key of the repository's own
  test, \<open>test-public-key-base64\<close>, the identifier has uppercase letters, \<open>isValidDID\<close>
  rejects the DID, and the DID of the claim, which \<open>isValidDID\<close> accepts, is another string.
\<close>

theorem generateDID_test_key:
  "generateDID ''test-public-key-base64'' = ''did:moltbook:EYvXu4KPU6hcBL3plTuZJqWuuJaJzDor''
   \<and> \<not> isValidDID (generateDID ''test-public-key-base64'')
   \<and> spec_did ''test-public-key-base64'' = ''did:moltbook:118bd7bb828f53a85c04bde9953b9926''
   \<and> isValidDID (spec_did ''test-public-key-base64'')"
  unfolding generateDID_def sha256_def spec_did_def digest_test_key
  by code_simp

section \<open>Participant invariant\<close>

text \<open>
  Once the invariant holds, the two participant edits keep it (a maximum of \<open>0\<close> is read
  as no maximum by \<open>addParticipant\<close>).
\<close>

lemma addParticipant_keeps_ok:
  assumes "participants_ok c" and "maxParticipants_of c \<noteq> Some 0"
    and "addParticipant c d = Inr c'"
  shows "participants_ok c'"
  using assms
  by (auto simp: participants_ok_def addParticipant_def maxParticipants_of_def truthy_num_def
      split: if_splits option.splits)

lemma removeParticipant_keeps_ok:
  assumes "participants_ok c" and "removeParticipant c d r = Inr c'"
  shows "participants_ok c'"
proof -
  from assms(2) have parts: "ch_participants c' = filter (\<lambda>p. p \<noteq> d) (ch_participants c)"
    and meta: "ch_metadata c' = ch_metadata c"
    by (auto simp: removeParticipant_def split: if_splits)
  have "length (filter (\<lambda>p. p \<noteq> d) (ch_participants c)) \<le> length (ch_participants c)"
    by simp
  then have fewer: "int (length (filter (\<lambda>p. p \<noteq> d) (ch_participants c))) \<le> M"
    if "int (length (ch_participants c)) \<le> M" for M
    using that by linarith
  from assms(1) parts meta show ?thesis
    by (auto simp: participants_ok_def maxParticipants_of_def split: option.splits
        intro: fewer)
qed

text \<open>
  Claim C2. In every channel reachable through \<open>createChannel\<close>, \<open>addParticipant\<close> and
  \<open>removeParticipant\<close> the participant list has no duplicate and, when
  \<open>metadata.maxParticipants\<close> is set, no more elements than that; \<open>createChannel\<close>
  establishes this and the two edits preserve it. \<open>createChannel\<close> does not establish it:
  it tests the invitee list for the creator only and never reads \<open>maxParticipants\<close>. An
  invitee named twice stays twice among the participants, and three participants enter a
  channel created with a maximum of two.
\<close>

theorem createChannel_breaks_participants_ok:
  "(case createChannel sample_platform sample_getAgent
           (request_for [agent1_did, agent1_did] None) creator_did ''creator-private-key'' of
      Inl e \<Rightarrow> False
    | Inr r \<Rightarrow> ch_participants (resp_channel r) = [creator_did, agent1_did, agent1_did]
              \<and> \<not> participants_ok (resp_channel r))
   \<and> (case createChannel sample_platform sample_getAgent
           (request_for [agent1_did, outsider_did] (Some limit2)) creator_did
           ''creator-private-key'' of
      Inl e \<Rightarrow> False
    | Inr r \<Rightarrow> ch_participants (resp_channel r) = [creator_did, agent1_did, outsider_did]
              \<and> maxParticipants_of (resp_channel r) = Some 2
              \<and> \<not> participants_ok (resp_channel r))"
  by code_simp

section \<open>Message expiry\<close>

lemma isMessageExpired_iff:
  "isMessageExpired now m c \<longleftrightarrow>
     (\<exists>ttl. ttl_of c = Some ttl \<and> ttl \<noteq> 0 \<and> now - msg_timestamp m > ttl * 1000)"
  by (auto simp: isMessageExpired_def truthy_num_def Let_def split: option.splits)

lemma maximum_Max: "xs \<noteq> [] \<Longrightarrow> maximum xs = Some (Max (set xs))"
proof (cases xs)
  case Nil
  assume "xs \<noteq> []"
  with Nil show ?thesis by simp
next
  case (Cons a list)
  then show ?thesis using Max.set_eq_fold [of a list] by simp
qed

text \<open>
  The statistics count the messages that are not expired, and their last activity is the
  greatest timestamp among those.
\<close>

lemma getChannelStats_skips_expired:
  "messageCount (getChannelStats now c ms)
     = length (filter (\<lambda>m. \<not> isMessageExpired now m c) ms)
   \<and> lastActivity (getChannelStats now c ms) =
       (if \<exists>m \<in> set ms. \<not> isMessageExpired now m c
        then Some (Max (msg_timestamp ` {m \<in> set ms. \<not> isMessageExpired now m c}))
        else None)"
  by (simp add: getChannelStats_def Let_def) (auto simp: maximum_Max filter_empty_conv)

text \<open>
  Claim C3. In a channel with a TTL of \<open>ttl\<close> seconds a message is expired exactly when
  \<open>now - timestamp > ttl * 1000\<close>, and an expired message is left out of the message
  listing and of the statistics, whose \<open>messageCount\<close> and \<open>lastActivity\<close> are taken over
  the messages that are not expired. The statistics do so
  (\<open>getChannelStats_skips_expired\<close>); the listing does not: \<open>getChannelMessages\<close> and the
  route \<open>GET /channels/:id/messages\<close> never look at the TTL. In the channel with a TTL of
  60 seconds, read at the time of its newer message, the message stamped 120 seconds
  earlier is expired, both the storage listing and the route return it, and the
  statistics over the same listing count one message.
\<close>

theorem listing_returns_expired_message:
  "isMessageExpired 1700000000000 (message_at ''msg-1'' 1699999880000) ttlChannel
   \<and> getChannelMessages sample_storage ''ch-test123'' None
       = [message_at ''msg-2'' 1700000000000, message_at ''msg-1'' 1699999880000]
   \<and> resp_data (get_messages sample_storage (Some member_did) ''ch-test123'' None None None)
       = Some [message_at ''msg-2'' 1700000000000, message_at ''msg-1'' 1699999880000]
   \<and> messageCount (getChannelStats 1700000000000 ttlChannel
         (getChannelMessages sample_storage ''ch-test123'' None)) = 1
   \<and> lastActivity (getChannelStats 1700000000000 ttlChannel
         (getChannelMessages sample_storage ''ch-test123'' None)) = Some 1700000000000"
  by code_simp

section \<open>Credential-gated access\<close>

lemma hasVerifiedNFT_gate:
  "hasVerifiedNFT a (gate_contract g) (gate_schema g)
     = list_ex (gate_matches g) (credentials_of a)"
  unfolding hasVerifiedNFT_def gate_matches_def
  by (rule arg_cong [where f = "\<lambda>P. list_ex P (credentials_of a)"]) auto

text \<open>
  Claim C4, amended. For a channel whose policy is \<open>nft_gated\<close> with a gate configured and
  an agent who is not a participant, access is allowed exactly when the agent holds a
  credential with \<open>verified = true\<close> for the contract of the gate (and of its schema, when a
  non-empty one is set) and, when a minimum amount is set, holds at least that many of
  them; an agent with no such credential is denied with the reason
  \<open>Required NFT not found\<close>.
\<close>

theorem nft_gate_decision:
  assumes "ch_accessControl c = Some ac" and "ac_type ac = NftGated"
    and "ac_nftGate ac = Some g" and "agent_did a \<notin> set (ch_participants c)"
  shows "(allowed (canAccessChannel c a) \<longleftrightarrow>
            list_ex (gate_matches g) (credentials_of a)
            \<and> (\<forall>n. gate_minAmount g = Some n
                  \<longrightarrow> n \<le> int (length (filter (gate_matches g) (credentials_of a)))))
         \<and> (\<not> list_ex (gate_matches g) (credentials_of a)
              \<longrightarrow> canAccessChannel c a
                    = \<lparr>allowed = False, reason = Some ''Required NFT not found''\<rparr>)"
  using assms
  by (auto simp: canAccessChannel_def hasVerifiedNFT_gate truthy_num_def split: option.splits)

theorem nft_gate_decision_witness:
  "allowed (canAccessChannel nftChannel (agent_holding [sample_credential True]))
   \<and> canAccessChannel nftChannel (agent_holding [sample_credential False])
       = \<lparr>allowed = False, reason = Some ''Required NFT not found''\<rparr>
   \<and> canAccessChannel nftChannel mockAgent
       = \<lparr>allowed = False, reason = Some ''Required NFT not found''\<rparr>"
proof -
  let ?ac = "\<lparr>ac_type = NftGated, ac_nftGate = Some sample_gate, ac_allowedDIDs = None\<rparr>"
  have ac: "ch_accessControl nftChannel = Some ?ac"
    by (simp add: nftChannel_def gated_by_def mockChannel_def)
  have type: "ac_type ?ac = NftGated" and gate: "ac_nftGate ?ac = Some sample_gate"
    by simp_all
  have outside: "agent_did (agent_holding cs) \<notin> set (ch_participants nftChannel)" for cs
    by (simp add: agent_holding_def mockAgent_def agent_named_def nftChannel_def gated_by_def
        mockChannel_def agent1_did_def creator_did_def)
  have outside': "agent_did mockAgent \<notin> set (ch_participants nftChannel)"
    by (simp add: mockAgent_def agent_named_def nftChannel_def gated_by_def mockChannel_def
        agent1_did_def creator_did_def)
  have holds: "list_ex (gate_matches sample_gate)
      (credentials_of (agent_holding [sample_credential True]))"
    by (simp add: gate_matches_def sample_gate_def credentials_of_def agent_holding_def
        sample_credential_def truthy_str_def)
  have unverified: "\<not> list_ex (gate_matches sample_gate)
      (credentials_of (agent_holding [sample_credential False]))"
    by (simp add: gate_matches_def credentials_of_def agent_holding_def sample_credential_def)
  have none: "\<not> list_ex (gate_matches sample_gate) (credentials_of mockAgent)"
    by (simp add: credentials_of_def mockAgent_def agent_named_def sample_profile_def)
  have no_min: "\<forall>n. gate_minAmount sample_gate = Some n
      \<longrightarrow> n \<le> int (length (filter (gate_matches sample_gate)
                  (credentials_of (agent_holding [sample_credential True]))))"
    by (simp add: sample_gate_def)
  from nft_gate_decision [OF ac type gate outside, of "[sample_credential True]"] holds no_min
  have "allowed (canAccessChannel nftChannel (agent_holding [sample_credential True]))"
    by blast
  moreover from nft_gate_decision [OF ac type gate outside, of "[sample_credential False]"]
    unverified
  have "canAccessChannel nftChannel (agent_holding [sample_credential False])
      = \<lparr>allowed = False, reason = Some ''Required NFT not found''\<rparr>"
    by blast
  moreover from nft_gate_decision [OF ac type gate outside'] none
  have "canAccessChannel nftChannel mockAgent
      = \<lparr>allowed = False, reason = Some ''Required NFT not found''\<rparr>"
    by blast
  ultimately show ?thesis by blast
qed

text \<open>
  The claim as it was stated gives the reason as \<open>Required credential not found\<close>; the
  agent of the repository's test, who holds no credential, is denied with another text, and
  with a third one when the gated channel has no gate configured. A gate whose schema is the
  empty string admits a verified credential of the contract whatever its schema.
\<close>

theorem nft_gate_reason_counterexample:
  "ch_accessControl nftChannel
     = Some \<lparr>ac_type = NftGated, ac_nftGate = Some sample_gate, ac_allowedDIDs = None\<rparr>
   \<and> agent_did mockAgent \<notin> set (ch_participants nftChannel)
   \<and> \<not> list_ex (gate_matches sample_gate) (credentials_of mockAgent)
   \<and> canAccessChannel nftChannel mockAgent
       \<noteq> \<lparr>allowed = False, reason = Some ''Required credential not found''\<rparr>
   \<and> reason (canAccessChannel nftChannel mockAgent) = Some ''Required NFT not found''
   \<and> reason (canAccessChannel (gated_by None) mockAgent) = Some ''NFT gate not configured''
   \<and> cred_schema (sample_credential True) \<noteq> []
   \<and> allowed (canAccessChannel (gated_by (Some (sample_gate\<lparr>gate_schema := Some []\<rparr>)))
         (agent_holding [sample_credential True]))"
  by code_simp

section \<open>Profile updates and reputation\<close>

text \<open>
  No profile update changes the reputation, whatever it carries under that key, and no
  sequence of updates does; the two credential operations leave it alone as well, and the
  reputation that \<open>adjustReputation\<close> returns lies in \<open>[0, 100]\<close>.
\<close>

lemma updateAgentProfile_reputation:
  "prof_reputation (agent_profile (updateAgentProfile a u)) = prof_reputation (agent_profile a)"
  by (simp add: updateAgentProfile_def)

lemma updates_reputation:
  "prof_reputation (agent_profile (fold (\<lambda>u a. updateAgentProfile a u) us a))
     = prof_reputation (agent_profile a)"
  by (induction us arbitrary: a) (simp_all add: updateAgentProfile_reputation)

lemma updateAgentProfile_identity:
  "agent_did (updateAgentProfile a u) = agent_did a
   \<and> agent_publicKey (updateAgentProfile a u) = agent_publicKey a
   \<and> agent_createdAt (updateAgentProfile a u) = agent_createdAt a"
  by (simp add: updateAgentProfile_def)

lemma adjustReputation_range:
  "0 \<le> prof_reputation (agent_profile (adjustReputation a delta))
   \<and> prof_reputation (agent_profile (adjustReputation a delta)) \<le> 100"
  by (simp add: adjustReputation_def Let_def)

lemma credential_operations_reputation:
  "prof_reputation (agent_profile (addNFTCredential a contract assetId schema))
     = prof_reputation (agent_profile a)
   \<and> prof_reputation (agent_profile (verifyNFTCredential now a contract assetId))
     = prof_reputation (agent_profile a)"
  by (simp add: addNFTCredential_def verifyNFTCredential_def Let_def)

text \<open>
  Claim C5. \<open>updateAgentProfile\<close> returns an agent whose profile differs from the original
  in the display name, the capabilities and the opaque metadata only; the reputation is kept
  by every sequence of updates and changes through \<open>adjustReputation\<close> alone, within
  \<open>[0, 100]\<close>. The part on the reputation holds (the lemmas above). The frame does not:
  the code spreads every key of the update over the profile and restores the reputation
  only. An update that carries a credential list replaces the credentials of the agent,
  here by one marked as verified, which \<open>addNFTCredential\<close> never writes, and the agent
  whom the credential-gated channel of the repository's test denied is admitted; an update
  that carries the key with no value removes a verified credential.
\<close>

theorem updateAgentProfile_replaces_credentials:
  "prof_nftCredentials (agent_profile mockAgent) = None
   \<and> prof_nftCredentials (agent_profile
         (updateAgentProfile mockAgent
            (no_updates\<lparr>upd_nftCredentials := Given [sample_credential True]\<rparr>)))
       = Some [sample_credential True]
   \<and> \<not> allowed (canAccessChannel nftChannel mockAgent)
   \<and> allowed (canAccessChannel nftChannel
         (updateAgentProfile mockAgent
            (no_updates\<lparr>upd_nftCredentials := Given [sample_credential True]\<rparr>)))
   \<and> cred_verified (sample_credential True)
   \<and> prof_nftCredentials (agent_profile
         (addNFTCredential mockAgent ''atomicassets'' ''12345'' ''moltbook.agent''))
       = Some [sample_credential False]
   \<and> prof_nftCredentials (agent_profile
         (updateAgentProfile (agent_holding [sample_credential True])
            (no_updates\<lparr>upd_nftCredentials := Cleared\<rparr>)))
       = None"
  by code_simp

section \<open>Invitation transitions\<close>

text \<open>
  Claim C6. \<open>acceptInvitation\<close> and \<open>rejectInvitation\<close> throw exactly when the status of
  the invitation is not \<open>pending\<close>. On a pending invitation \<open>acceptInvitation\<close> returns
  the invitation with status \<open>expired\<close> when \<open>now > expiresAt\<close> and \<open>accepted\<close> when
  \<open>now \<le> expiresAt\<close>, and \<open>rejectInvitation\<close> returns it with status \<open>rejected\<close>.
  Whatever either operation returns is never \<open>pending\<close>, and an invitation in a terminal
  status is returned by neither, so no terminal status goes back to \<open>pending\<close>.
\<close>

theorem invitation_state_machine:
  "(isl (acceptInvitation now i) \<longleftrightarrow> inv_status i \<noteq> Pending)
   \<and> (isl (rejectInvitation i) \<longleftrightarrow> inv_status i \<noteq> Pending)
   \<and> (inv_status i = Pending \<and> now > inv_expiresAt i
        \<longrightarrow> acceptInvitation now i = Inr (i\<lparr>inv_status := Expired\<rparr>))
   \<and> (inv_status i = Pending \<and> now \<le> inv_expiresAt i
        \<longrightarrow> acceptInvitation now i = Inr (i\<lparr>inv_status := Accepted\<rparr>))
   \<and> (inv_status i = Pending \<longrightarrow> rejectInvitation i = Inr (i\<lparr>inv_status := Rejected\<rparr>))
   \<and> (\<forall>i'. acceptInvitation now i = Inr i' \<or> rejectInvitation i = Inr i'
          \<longrightarrow> inv_status i = Pending \<and> inv_status i' \<noteq> Pending)"
  by (auto simp: acceptInvitation_def rejectInvitation_def)

theorem invitation_state_machine_witness:
  "acceptInvitation 1700604801000 pendingInvitation
     = Inr (pendingInvitation\<lparr>inv_status := Expired\<rparr>)
   \<and> acceptInvitation 1700604800000 pendingInvitation
     = Inr (pendingInvitation\<lparr>inv_status := Accepted\<rparr>)
   \<and> rejectInvitation pendingInvitation = Inr (pendingInvitation\<lparr>inv_status := Rejected\<rparr>)
   \<and> isl (acceptInvitation 1700604800000 (pendingInvitation\<lparr>inv_status := Accepted\<rparr>))
   \<and> isl (rejectInvitation (pendingInvitation\<lparr>inv_status := Expired\<rparr>))"
  using invitation_state_machine [of 1700604801000 pendingInvitation]
    invitation_state_machine [of 1700604800000 pendingInvitation]
    invitation_state_machine [of 1700604800000 "pendingInvitation\<lparr>inv_status := Accepted\<rparr>"]
    invitation_state_machine [of 0 "pendingInvitation\<lparr>inv_status := Expired\<rparr>"]
  by (simp add: pendingInvitation_def)

section \<open>Adding a participant twice\<close>

text \<open>
  Claim C10. For a DID already among the participants, \<open>addParticipant\<close> returns the
  channel unchanged and does not throw, whatever the participant count and
  \<open>metadata.maxParticipants\<close> are; the maximum-participants error is thrown only for a DID
  that is not yet a participant.
\<close>

theorem addParticipant_idempotent:
  "(d \<in> set (ch_participants c) \<longrightarrow> addParticipant c d = Inr c)
   \<and> (addParticipant c d = Inl MaxParticipantsReached \<longrightarrow> d \<notin> set (ch_participants c))"
  by (auto simp: addParticipant_def)

theorem addParticipant_idempotent_witness:
  "addParticipant limitedChannel agent1_did = Inr limitedChannel
   \<and> addParticipant limitedChannel outsider_did = Inl MaxParticipantsReached
   \<and> outsider_did \<notin> set (ch_participants limitedChannel)"
proof -
  have full: "addParticipant limitedChannel outsider_did = Inl MaxParticipantsReached"
    by (simp add: addParticipant_def limitedChannel_def limit2_def mockChannel_def
        maxParticipants_of_def truthy_num_def creator_did_def agent1_did_def outsider_did_def)
  have present: "agent1_did \<in> set (ch_participants limitedChannel)"
    by (simp add: limitedChannel_def mockChannel_def)
  show ?thesis
    using addParticipant_idempotent [of agent1_did limitedChannel]
      addParticipant_idempotent [of outsider_did limitedChannel] full present
    by simp
qed

section \<open>Channel creation\<close>

lemma build_invitations_invitees:
  "build_invitations p g c k chid j ds = Inr invs
     \<Longrightarrow> map inv_invitee invs = filter (\<lambda>d. d \<noteq> c \<and> g d \<noteq> None) ds"
proof (induction ds arbitrary: j invs)
  case Nil
  then show ?case by simp
next
  case (Cons d ds)
  then show ?case
    by (auto split: if_splits option.splits sum.splits)
qed

lemma build_invitations_nth:
  "build_invitations p g c k chid j ds = Inr invs \<Longrightarrow> i < length invs
     \<Longrightarrow> inv_status (invs ! i) = Pending
       \<and> inv_createdAt (invs ! i) = plat_clock p (2 * (j + i) + 1)
       \<and> inv_expiresAt (invs ! i) = plat_clock p (2 * (j + i) + 2) + SEVEN_DAYS
       \<and> inv_inviter (invs ! i) = c \<and> inv_channelId (invs ! i) = chid"
proof (induction ds arbitrary: j invs i)
  case Nil
  then show ?case by simp
next
  case (Cons d ds)
  show ?case
  proof (cases "d = c \<or> g d = None")
    case True
    with Cons.prems have "build_invitations p g c k chid j ds = Inr invs"
      by (auto split: if_splits option.splits)
    from Cons.IH [OF this Cons.prems(2)] show ?thesis .
  next
    case False
    then obtain a where a: "g d = Some a" and dc: "d \<noteq> c" by auto
    from Cons.prems(1) a dc obtain w rest where
      w: "plat_wrap p j (agent_publicKey a) k = Inr w"
      and rest: "build_invitations p g c k chid (Suc j) ds = Inr rest"
      and invs: "invs = \<lparr>inv_id = generateId ''inv'' (plat_random p (Suc j)),
                        inv_channelId = chid, inv_inviter = c, inv_invitee = d,
                        inv_createdAt = plat_clock p (2 * j + 1),
                        inv_expiresAt = plat_clock p (2 * j + 2) + SEVEN_DAYS,
                        inv_encryptedChannelKey = w, inv_status = Pending\<rparr> # rest"
      by (auto split: sum.splits)
    show ?thesis
    proof (cases i)
      case 0
      with invs show ?thesis by simp
    next
      case (Suc i')
      with Cons.prems(2) invs have "i' < length rest" by simp
      from Cons.IH [OF rest this] Suc invs show ?thesis by simp
    qed
  qed
qed

lemma build_invitations_returns:
  assumes "\<forall>d \<in> set ds. g d \<noteq> None"
  shows "(\<exists>invs. build_invitations p g c k chid j ds = Inr invs)
     \<longleftrightarrow> (\<forall>i < length (filter (\<lambda>d. d \<noteq> c) ds).
            \<forall>a. g (filter (\<lambda>d. d \<noteq> c) ds ! i) = Some a
              \<longrightarrow> \<not> isl (plat_wrap p (j + i) (agent_publicKey a) k))"
  using assms
proof (induction ds arbitrary: j)
  case Nil
  then show ?case by simp
next
  case (Cons d ds)
  then have rest: "\<forall>d \<in> set ds. g d \<noteq> None" by simp
  note IH = Cons.IH [OF rest]
  show ?case
  proof (cases "d = c")
    case True
    then show ?thesis using IH [of j] by simp
  next
    case False
    from Cons.prems obtain a where a: "g d = Some a" by auto
    have "(\<exists>invs. build_invitations p g c k chid j (d # ds) = Inr invs)
        \<longleftrightarrow> (\<not> isl (plat_wrap p j (agent_publicKey a) k)
             \<and> (\<exists>invs. build_invitations p g c k chid (Suc j) ds = Inr invs))"
      using False a by (auto split: sum.splits)
    also have "\<dots> \<longleftrightarrow> (\<not> isl (plat_wrap p j (agent_publicKey a) k)
        \<and> (\<forall>i < length (filter (\<lambda>d. d \<noteq> c) ds).
              \<forall>a. g (filter (\<lambda>d. d \<noteq> c) ds ! i) = Some a
                \<longrightarrow> \<not> isl (plat_wrap p (Suc j + i) (agent_publicKey a) k)))"
      using IH [of "Suc j"] by simp
    also have "\<dots> \<longleftrightarrow> (\<forall>i < length (filter (\<lambda>d. d \<noteq> c) (d # ds)).
        \<forall>a. g (filter (\<lambda>d. d \<noteq> c) (d # ds) ! i) = Some a
          \<longrightarrow> \<not> isl (plat_wrap p (j + i) (agent_publicKey a) k))"
      using False a by (simp add: All_less_Suc2)
    finally show ?thesis .
  qed
qed

lemma filter_allParticipants:
  "filter (\<lambda>d. d \<noteq> c) (allParticipants c ps) = filter (\<lambda>d. d \<noteq> c) ps"
  by (simp add: allParticipants_def)

lemma set_allParticipants: "set (allParticipants c ps) = insert c (set ps)"
  by (auto simp: allParticipants_def)

lemma distinct_allParticipants: "distinct ps \<Longrightarrow> distinct (allParticipants c ps)"
  by (simp add: allParticipants_def)

lemma ch_id_new_channel: "ch_id (new_channel p r c ps) = generateId ''ch'' (plat_random p 0)"
  by (simp add: new_channel_def)

lemma createChannel_nonempty:
  "req_participants r = Some ps \<Longrightarrow> ps \<noteq> [] \<Longrightarrow>
   createChannel p g r c k =
     (case find (\<lambda>d. Option.is_none (g d)) (allParticipants c ps) of
        Some d \<Rightarrow> Inl (AgentNotFound d)
      | None \<Rightarrow>
          (case build_invitations p g c k (generateId ''ch'' (plat_random p 0)) 0
                  (allParticipants c ps) of
             Inl e \<Rightarrow> Inl e
           | Inr invs \<Rightarrow>
               Inr \<lparr>resp_channel = new_channel p r c (allParticipants c ps),
                    resp_invitations = invs\<rparr>))"
  by (simp add: createChannel_def Let_def ch_id_new_channel cong: option.case_cong)

lemma createChannel_result:
  assumes "createChannel p g r c k = Inr res" and "req_participants r = Some ps"
  shows "ch_participants (resp_channel res) = allParticipants c ps
     \<and> map inv_invitee (resp_invitations res) = filter (\<lambda>d. d \<noteq> c) ps
     \<and> (\<forall>i < length (resp_invitations res).
           inv_status (resp_invitations res ! i) = Pending
           \<and> inv_createdAt (resp_invitations res ! i) = plat_clock p (2 * i + 1)
           \<and> inv_expiresAt (resp_invitations res ! i) = plat_clock p (2 * i + 2) + SEVEN_DAYS)"
proof -
  let ?all = "allParticipants c ps"
  let ?chid = "generateId ''ch'' (plat_random p 0)"
  from assms have ne: "ps \<noteq> []" by (auto simp: createChannel_def)
  from assms ne have unfolded:
    "(case find (\<lambda>d. Option.is_none (g d)) ?all of
        Some d \<Rightarrow> Inl (AgentNotFound d)
      | None \<Rightarrow>
          (case build_invitations p g c k ?chid 0 ?all of
             Inl e \<Rightarrow> Inl e
           | Inr invs \<Rightarrow>
               Inr \<lparr>resp_channel = new_channel p r c ?all, resp_invitations = invs\<rparr>)) = Inr res"
    using createChannel_nonempty [of r ps p g c k] by simp
  then have none: "find (\<lambda>d. Option.is_none (g d)) ?all = None"
    by (cases "find (\<lambda>d. Option.is_none (g d)) ?all") simp_all
  with unfolded obtain invs where
    invs: "build_invitations p g c k ?chid 0 ?all = Inr invs"
    and res: "res = \<lparr>resp_channel = new_channel p r c ?all, resp_invitations = invs\<rparr>"
    by (cases "build_invitations p g c k ?chid 0 ?all") auto
  have res_inv: "resp_invitations res = invs"
    and res_ch: "ch_participants (resp_channel res) = ?all"
    by (simp_all add: res new_channel_def)
  from none have resolved: "\<forall>d \<in> set ?all. g d \<noteq> None"
    by (simp add: find_None_iff Option.is_none_def)
  have "filter (\<lambda>d. d \<noteq> c \<and> g d \<noteq> None) ?all = filter (\<lambda>d. d \<noteq> c) ?all"
    by (rule filter_cong) (use resolved in auto)
  with build_invitations_invitees [OF invs]
  have invitees: "map inv_invitee invs = filter (\<lambda>d. d \<noteq> c) ps"
    by (simp add: filter_allParticipants)
  have "inv_status (invs ! i) = Pending
      \<and> inv_createdAt (invs ! i) = plat_clock p (2 * i + 1)
      \<and> inv_expiresAt (invs ! i) = plat_clock p (2 * i + 2) + SEVEN_DAYS"
    if "i < length invs" for i
    using build_invitations_nth [OF invs that] by simp
  with res_ch invitees show ?thesis unfolding res_inv by blast
qed

text \<open>
  Claim C7, amended. \<open>createChannel\<close> fails when the invitee list is missing or empty,
  and when a DID of the creator or of an invitee does not resolve to an agent, in which case
  the error names such a DID. When the list is not empty and every DID resolves, it returns
  if and only if the wrapping of the channel key succeeds for every recipient, that is for
  the public key of the agent behind each entry of the invitee list other than the creator,
  the \<open>i\<close>-th of them in the \<open>i\<close>-th call. Whatever it returns is a channel whose
  participants are the creator and the invitees, with an invitation for each participant
  other than the creator and for nobody else, and for an invitee list without duplicates
  exactly one for each; the \<open>i\<close>-th invitation is \<open>pending\<close>, its \<open>createdAt\<close> is the
  clock reading \<open>2i + 1\<close> and its \<open>expiresAt\<close> the clock reading \<open>2i + 2\<close> plus
  \<open>7 * 86400000\<close> ms: the two are read one after the other, so \<open>expiresAt\<close> is
  \<open>createdAt\<close> plus seven days whenever the clock does not advance in between.
\<close>

theorem createChannel_amended:
  "(req_participants r = None \<or> req_participants r = Some []
      \<longrightarrow> createChannel p g r c k = Inl NoParticipantGiven)
   \<and> (\<forall>ps. req_participants r = Some ps \<and> ps \<noteq> [] \<and> (\<exists>d \<in> insert c (set ps). g d = None)
        \<longrightarrow> (\<exists>d \<in> insert c (set ps). g d = None
               \<and> createChannel p g r c k = Inl (AgentNotFound d)))
   \<and> (\<forall>ps. req_participants r = Some ps \<and> ps \<noteq> [] \<and> (\<forall>d \<in> insert c (set ps). g d \<noteq> None)
        \<longrightarrow> ((\<exists>res. createChannel p g r c k = Inr res)
             \<longleftrightarrow> (\<forall>i < length (filter (\<lambda>d. d \<noteq> c) ps).
                    \<forall>a. g (filter (\<lambda>d. d \<noteq> c) ps ! i) = Some a
                      \<longrightarrow> \<not> isl (plat_wrap p i (agent_publicKey a) k))))
   \<and> (\<forall>ps res. createChannel p g r c k = Inr res \<and> req_participants r = Some ps
        \<longrightarrow> c \<in> set (ch_participants (resp_channel res))
            \<and> set (ch_participants (resp_channel res)) = insert c (set ps)
            \<and> set (map inv_invitee (resp_invitations res))
                = set (ch_participants (resp_channel res)) - {c}
            \<and> (distinct ps \<longrightarrow> distinct (ch_participants (resp_channel res))
                              \<and> distinct (map inv_invitee (resp_invitations res)))
            \<and> (\<forall>i < length (resp_invitations res).
                  inv_status (resp_invitations res ! i) = Pending
                  \<and> inv_createdAt (resp_invitations res ! i) = plat_clock p (2 * i + 1)
                  \<and> inv_expiresAt (resp_invitations res ! i)
                      = plat_clock p (2 * i + 2) + 7 * 86400000))"
proof -
  have missing: "req_participants r = None \<or> req_participants r = Some []
      \<longrightarrow> createChannel p g r c k = Inl NoParticipantGiven"
    by (auto simp: createChannel_def)
  have unresolved: "\<exists>d \<in> insert c (set ps). g d = None
        \<and> createChannel p g r c k = Inl (AgentNotFound d)"
    if a: "req_participants r = Some ps \<and> ps \<noteq> [] \<and> (\<exists>d \<in> insert c (set ps). g d = None)"
    for ps
  proof -
    let ?all = "allParticipants c ps"
    from a have "\<exists>d \<in> set ?all. Option.is_none (g d)"
      unfolding set_allParticipants by (simp add: Option.is_none_def)
    then obtain d where d: "find (\<lambda>d. Option.is_none (g d)) ?all = Some d"
      by (cases "find (\<lambda>d. Option.is_none (g d)) ?all") (auto simp: find_None_iff)
    then obtain i where "i < length ?all" and "Option.is_none (g (?all ! i))"
      and "d = ?all ! i"
      unfolding find_Some_iff by blast
    then have "d \<in> set ?all" and none: "g d = None"
      using nth_mem [of i ?all] by (simp_all only: Option.is_none_def)
    then have "d \<in> insert c (set ps)" unfolding set_allParticipants by simp
    moreover from a d have "createChannel p g r c k = Inl (AgentNotFound d)"
      by (simp add: createChannel_nonempty)
    ultimately show ?thesis using none by blast
  qed
  have returns: "(\<exists>res. createChannel p g r c k = Inr res)
      \<longleftrightarrow> (\<forall>i < length (filter (\<lambda>d. d \<noteq> c) ps).
             \<forall>a. g (filter (\<lambda>d. d \<noteq> c) ps ! i) = Some a
               \<longrightarrow> \<not> isl (plat_wrap p i (agent_publicKey a) k))"
    if a: "req_participants r = Some ps \<and> ps \<noteq> [] \<and> (\<forall>d \<in> insert c (set ps). g d \<noteq> None)"
    for ps
  proof -
    let ?all = "allParticipants c ps"
    let ?chid = "generateId ''ch'' (plat_random p 0)"
    from a have resolved: "\<forall>d \<in> set ?all. g d \<noteq> None"
      unfolding set_allParticipants by simp
    then have none: "find (\<lambda>d. Option.is_none (g d)) ?all = None"
      by (simp add: find_None_iff Option.is_none_def)
    have "(\<exists>res. createChannel p g r c k = Inr res)
        \<longleftrightarrow> (\<exists>invs. build_invitations p g c k ?chid 0 ?all = Inr invs)"
      using a none by (auto simp: createChannel_nonempty split: sum.splits)
    also have "\<dots> \<longleftrightarrow> (\<forall>i < length (filter (\<lambda>d. d \<noteq> c) ?all).
        \<forall>a. g (filter (\<lambda>d. d \<noteq> c) ?all ! i) = Some a
          \<longrightarrow> \<not> isl (plat_wrap p (0 + i) (agent_publicKey a) k))"
      by (rule build_invitations_returns [OF resolved])
    finally show ?thesis by (simp add: filter_allParticipants)
  qed
  have result: "c \<in> set (ch_participants (resp_channel res))
      \<and> set (ch_participants (resp_channel res)) = insert c (set ps)
      \<and> set (map inv_invitee (resp_invitations res))
          = set (ch_participants (resp_channel res)) - {c}
      \<and> (distinct ps \<longrightarrow> distinct (ch_participants (resp_channel res))
                        \<and> distinct (map inv_invitee (resp_invitations res)))
      \<and> (\<forall>i < length (resp_invitations res).
            inv_status (resp_invitations res ! i) = Pending
            \<and> inv_createdAt (resp_invitations res ! i) = plat_clock p (2 * i + 1)
            \<and> inv_expiresAt (resp_invitations res ! i)
                = plat_clock p (2 * i + 2) + 7 * 86400000)"
    if a: "createChannel p g r c k = Inr res \<and> req_participants r = Some ps" for ps res
  proof -
    from a createChannel_result [of p g r c k res ps]
    have parts: "ch_participants (resp_channel res) = allParticipants c ps"
      and invitees: "map inv_invitee (resp_invitations res) = filter (\<lambda>d. d \<noteq> c) ps"
      and each: "\<forall>i < length (resp_invitations res).
           inv_status (resp_invitations res ! i) = Pending
           \<and> inv_createdAt (resp_invitations res ! i) = plat_clock p (2 * i + 1)
           \<and> inv_expiresAt (resp_invitations res ! i) = plat_clock p (2 * i + 2) + SEVEN_DAYS"
      by simp_all
    have "c \<in> set (ch_participants (resp_channel res))"
      and "set (ch_participants (resp_channel res)) = insert c (set ps)"
      unfolding parts set_allParticipants by simp_all
    moreover have "set (map inv_invitee (resp_invitations res))
        = set (ch_participants (resp_channel res)) - {c}"
      unfolding invitees parts set_allParticipants by auto
    moreover have "distinct ps \<longrightarrow> distinct (ch_participants (resp_channel res))
        \<and> distinct (map inv_invitee (resp_invitations res))"
      unfolding invitees parts by (simp add: distinct_allParticipants)
    moreover from each have "\<forall>i < length (resp_invitations res).
        inv_status (resp_invitations res ! i) = Pending
        \<and> inv_createdAt (resp_invitations res ! i) = plat_clock p (2 * i + 1)
        \<and> inv_expiresAt (resp_invitations res ! i) = plat_clock p (2 * i + 2) + 7 * 86400000"
      by (simp add: SEVEN_DAYS_def)
    ultimately show ?thesis by blast
  qed
  show ?thesis
    apply (intro conjI)
       apply (rule missing)
      apply (intro allI impI, rule unresolved, assumption)
     apply (intro allI impI, rule returns, assumption)
    apply (intro allI impI, rule result, assumption)
    done
qed

theorem createChannel_amended_witness:
  "createChannel strict_platform keyed_getAgent (request_for [] None) creator_did creator_key
      = Inl NoParticipantGiven
   \<and> createChannel strict_platform keyed_getAgent
        (request_for [agent1_did, ''did:moltbook:nobody''] None) creator_did creator_key
      = Inl (AgentNotFound ''did:moltbook:nobody'')
   \<and> (\<exists>res. createChannel strict_platform keyed_getAgent (request_for [agent1_did] None)
                creator_did creator_key = Inr res
          \<and> set (ch_participants (resp_channel res)) = {creator_did, agent1_did}
          \<and> distinct (ch_participants (resp_channel res))
          \<and> distinct (map inv_invitee (resp_invitations res))
          \<and> set (map inv_invitee (resp_invitations res)) = {agent1_did}
          \<and> inv_status (resp_invitations res ! 0) = Pending
          \<and> inv_createdAt (resp_invitations res ! 0) = 1700000000001
          \<and> inv_expiresAt (resp_invitations res ! 0) = 1700604800002)
   \<and> \<not> (\<exists>res. createChannel strict_platform keyed_getAgent (request_for [agent1_did] None)
                  creator_did ''creator-private-key'' = Inr res)"
proof -
  let ?k = "creator_key"
  let ?nobody = "''did:moltbook:nobody''"
  let ?pub = "''vnGBjfjcdPTOb4atBb69+PcxdEHyo3LqqRj7MKGJW8I=''"
  have agent1: "keyed_getAgent agent1_did = Some (agent_named agent1_did ?pub)"
    and known: "keyed_getAgent creator_did \<noteq> None" "keyed_getAgent agent1_did \<noteq> None"
    and unknown: "keyed_getAgent ?nobody = None"
    and differ: "creator_did \<noteq> agent1_did"
    by (simp_all add: keyed_getAgent_def creator_did_def agent1_did_def outsider_did_def)
  have "x25519_public ?pub" and "x25519_private creator_key"
    and "\<not> x25519_private ''creator-private-key''"
    by code_simp+
  then have wraps: "\<not> isl (plat_wrap strict_platform i ?pub creator_key)"
    and fails: "isl (plat_wrap strict_platform i ?pub ''creator-private-key'')" for i
    by (simp_all add: strict_platform_def sample_platform_def)
  have recipients: "filter (\<lambda>d. d \<noteq> creator_did) [agent1_did] = [agent1_did]"
    using differ by simp
  have empty: "createChannel strict_platform keyed_getAgent (request_for [] None) creator_did ?k
      = Inl NoParticipantGiven"
    using createChannel_amended [of "request_for [] None" strict_platform keyed_getAgent
        creator_did ?k]
    by (simp add: request_for_def)
  have "\<exists>d \<in> insert creator_did (set [agent1_did, ?nobody]). keyed_getAgent d = None
      \<and> createChannel strict_platform keyed_getAgent (request_for [agent1_did, ?nobody] None)
            creator_did ?k = Inl (AgentNotFound d)"
    using createChannel_amended [of "request_for [agent1_did, ?nobody] None" strict_platform
        keyed_getAgent creator_did ?k] unknown
    by (simp add: request_for_def)
  with known have missing:
    "createChannel strict_platform keyed_getAgent (request_for [agent1_did, ?nobody] None)
       creator_did ?k = Inl (AgentNotFound ?nobody)"
    by auto
  have req: "req_participants (request_for [agent1_did] None) = Some [agent1_did]"
    by (simp add: request_for_def)
  note one = createChannel_amended [of "request_for [agent1_did] None" strict_platform
      keyed_getAgent creator_did ?k]
  from one req known have "(\<exists>res. createChannel strict_platform keyed_getAgent
        (request_for [agent1_did] None) creator_did ?k = Inr res)
      \<longleftrightarrow> (\<forall>i < length (filter (\<lambda>d. d \<noteq> creator_did) [agent1_did]).
             \<forall>a. keyed_getAgent (filter (\<lambda>d. d \<noteq> creator_did) [agent1_did] ! i) = Some a
               \<longrightarrow> \<not> isl (plat_wrap strict_platform i (agent_publicKey a) ?k))"
    by simp
  with agent1 wraps obtain res where
    res: "createChannel strict_platform keyed_getAgent (request_for [agent1_did] None)
            creator_did ?k = Inr res"
    unfolding recipients by (auto simp: agent_named_def)
  with one req have facts:
    "set (ch_participants (resp_channel res)) = insert creator_did (set [agent1_did])"
    "distinct (ch_participants (resp_channel res))"
    "distinct (map inv_invitee (resp_invitations res))"
    "set (map inv_invitee (resp_invitations res))
       = set (ch_participants (resp_channel res)) - {creator_did}"
    and each: "\<forall>i < length (resp_invitations res).
        inv_status (resp_invitations res ! i) = Pending
        \<and> inv_createdAt (resp_invitations res ! i) = plat_clock strict_platform (2 * i + 1)
        \<and> inv_expiresAt (resp_invitations res ! i)
            = plat_clock strict_platform (2 * i + 2) + 7 * 86400000"
    by simp_all
  from facts differ have invitees: "set (map inv_invitee (resp_invitations res)) = {agent1_did}"
    by auto
  then have "resp_invitations res \<noteq> []" by auto
  then have "0 < length (resp_invitations res)" by simp
  with each have first:
    "inv_status (resp_invitations res ! 0) = Pending"
    "inv_createdAt (resp_invitations res ! 0) = 1700000000001"
    "inv_expiresAt (resp_invitations res ! 0) = 1700604800002"
    by (simp_all add: strict_platform_def sample_platform_def)
  from facts(1) have both: "set (ch_participants (resp_channel res)) = {creator_did, agent1_did}"
    by simp
  have "(\<exists>res. createChannel strict_platform keyed_getAgent
        (request_for [agent1_did] None) creator_did ''creator-private-key'' = Inr res)
      \<longleftrightarrow> (\<forall>i < length (filter (\<lambda>d. d \<noteq> creator_did) [agent1_did]).
             \<forall>a. keyed_getAgent (filter (\<lambda>d. d \<noteq> creator_did) [agent1_did] ! i) = Some a
               \<longrightarrow> \<not> isl (plat_wrap strict_platform i (agent_publicKey a)
                          ''creator-private-key''))"
    using createChannel_amended [of "request_for [agent1_did] None" strict_platform
        keyed_getAgent creator_did "''creator-private-key''"] req known
    by simp
  with agent1 fails have refused: "\<not> (\<exists>res. createChannel strict_platform keyed_getAgent
        (request_for [agent1_did] None) creator_did ''creator-private-key'' = Inr res)"
    unfolding recipients by (auto simp: agent_named_def)
  from res both facts(2,3) invitees first have "\<exists>res.
      createChannel strict_platform keyed_getAgent (request_for [agent1_did] None)
          creator_did creator_key = Inr res
      \<and> set (ch_participants (resp_channel res)) = {creator_did, agent1_did}
      \<and> distinct (ch_participants (resp_channel res))
      \<and> distinct (map inv_invitee (resp_invitations res))
      \<and> set (map inv_invitee (resp_invitations res)) = {agent1_did}
      \<and> inv_status (resp_invitations res ! 0) = Pending
      \<and> inv_createdAt (resp_invitations res ! 0) = 1700000000001
      \<and> inv_expiresAt (resp_invitations res ! 0) = 1700604800002"
    by (intro exI [of _ res]) simp
  with empty missing refused show ?thesis by simp
qed

text \<open>
  The claim as it was stated has \<open>createChannel\<close> return whenever the list is not empty
  and every DID resolves. With a private key that is not base64 text, where \<open>atob\<close>
  throws, it throws, although every DID resolves and every public key is well formed. An
  invitee named twice receives two invitations. On a platform whose clock advances between
  two readings, \<open>expiresAt\<close> is not \<open>createdAt\<close> plus seven days.
\<close>

theorem createChannel_counterexample:
  "req_participants (request_for [agent1_did] None) = Some [agent1_did]
   \<and> keyed_getAgent creator_did \<noteq> None \<and> keyed_getAgent agent1_did \<noteq> None
   \<and> createChannel strict_platform keyed_getAgent (request_for [agent1_did] None) creator_did
        ''creator-private-key'' = Inl CryptoFailure
   \<and> (case createChannel strict_platform keyed_getAgent
              (request_for [agent1_did, agent1_did] None) creator_did creator_key of
         Inl e \<Rightarrow> False
       | Inr r \<Rightarrow> map inv_invitee (resp_invitations r) = [agent1_did, agent1_did])
   \<and> (case createChannel strict_platform keyed_getAgent
              (request_for [agent1_did] None) creator_did creator_key of
         Inl e \<Rightarrow> False
       | Inr r \<Rightarrow> map inv_createdAt (resp_invitations r) = [1700000000001]
                 \<and> map inv_expiresAt (resp_invitations r) = [1700000000002 + 7 * 86400000])"
  by code_simp

section \<open>Message validation\<close>

lemma truthy_str_absent: "truthy_str v = (\<not> absent v)"
  by (cases v) (simp_all add: truthy_str_def absent_def)

text \<open>
  Claim C8. \<open>validateMessage\<close> answers \<open>Not a channel participant\<close> whenever the sender
  is not among the participants of the channel, whatever the request holds; otherwise
  \<open>Missing required fields\<close> when the channel id, the nonce or the ciphertext is missing
  or empty; otherwise \<open>Channel ID mismatch\<close> when the channel id of the request is not
  that of the channel; otherwise it accepts the request. When it does not accept, the route
  \<open>POST /channels/:id/messages\<close> answers 400 and leaves the storage as it was; the
  storage is the same after every request that the route does not answer with success.
\<close>

theorem validateMessage_rules:
  "(sender \<notin> set (ch_participants c)
      \<longrightarrow> validateMessage m c sender
            = \<lparr>valid = False, error = Some ''Not a channel participant''\<rparr>)
   \<and> (sender \<in> set (ch_participants c)
        \<and> (absent (req_channelId m) \<or> absent (req_nonce m) \<or> absent (req_ciphertext m))
      \<longrightarrow> validateMessage m c sender
            = \<lparr>valid = False, error = Some ''Missing required fields''\<rparr>)
   \<and> (sender \<in> set (ch_participants c)
        \<and> \<not> absent (req_channelId m) \<and> \<not> absent (req_nonce m) \<and> \<not> absent (req_ciphertext m)
        \<and> req_channelId m \<noteq> Some (ch_id c)
      \<longrightarrow> validateMessage m c sender = \<lparr>valid = False, error = Some ''Channel ID mismatch''\<rparr>)
   \<and> (sender \<in> set (ch_participants c)
        \<and> \<not> absent (req_channelId m) \<and> \<not> absent (req_nonce m) \<and> \<not> absent (req_ciphertext m)
        \<and> req_channelId m = Some (ch_id c)
      \<longrightarrow> validateMessage m c sender = \<lparr>valid = True, error = None\<rparr>)
   \<and> (requireAgent st header = Some a \<and> st_channels st cid = Some c
        \<and> \<not> valid (validateMessage m c (agent_did a))
      \<longrightarrow> post_message random now st header cid (Inr m)
            = (\<lparr>resp_status = 400, resp_success = False, resp_data = None,
                resp_error = error (validateMessage m c (agent_did a))\<rparr>, st))
   \<and> (\<not> resp_success (fst (post_message random now st header cid body))
      \<longrightarrow> snd (post_message random now st header cid body) = st)"
  by (auto simp: validateMessage_def truthy_str_absent post_message_def failure_def Let_def
      split: option.splits sum.splits)

theorem validateMessage_rules_witness:
  "validateMessage (send_request ''ch-test123'' ''test-nonce'') ttlChannel stranger_did
     = \<lparr>valid = False, error = Some ''Not a channel participant''\<rparr>
   \<and> validateMessage (send_request ''ch-test123'' []) ttlChannel member_did
     = \<lparr>valid = False, error = Some ''Missing required fields''\<rparr>
   \<and> validateMessage (send_request ''wrong-channel'' ''test-nonce'') ttlChannel member_did
     = \<lparr>valid = False, error = Some ''Channel ID mismatch''\<rparr>
   \<and> validateMessage (send_request ''ch-test123'' ''test-nonce'') ttlChannel member_did
     = \<lparr>valid = True, error = None\<rparr>
   \<and> post_message (replicate 16 7) 1700000000500 sample_storage (Some stranger_did)
        ''ch-test123'' (Inr (send_request ''ch-test123'' ''test-nonce''))
     = (\<lparr>resp_status = 400, resp_success = False, resp_data = None,
         resp_error = Some ''Not a channel participant''\<rparr>, sample_storage)"
proof -
  have parts: "ch_participants ttlChannel = [creator_did, member_did]"
    and cid: "ch_id ttlChannel = ''ch-test123''"
    by (simp_all add: ttlChannel_def mockChannel_def)
  have dids: "stranger_did \<noteq> creator_did" "stranger_did \<noteq> member_did"
    by (simp_all add: stranger_did_def creator_did_def member_did_def)
  have agent: "requireAgent sample_storage (Some stranger_did)
      = Some (agent_named stranger_did ''stranger-public-key'')"
    by code_simp
  have channel: "st_channels sample_storage ''ch-test123'' = Some ttlChannel"
    by (simp add: sample_storage_def)
  have who: "agent_did (agent_named stranger_did ''stranger-public-key'') = stranger_did"
    by (simp add: agent_named_def)
  have r1: "validateMessage (send_request ''ch-test123'' ''test-nonce'') ttlChannel stranger_did
      = \<lparr>valid = False, error = Some ''Not a channel participant''\<rparr>"
    using validateMessage_rules [of stranger_did ttlChannel
        "send_request ''ch-test123'' ''test-nonce''"] parts dids
    by simp
  have r2: "validateMessage (send_request ''ch-test123'' []) ttlChannel member_did
      = \<lparr>valid = False, error = Some ''Missing required fields''\<rparr>"
    using validateMessage_rules [of member_did ttlChannel "send_request ''ch-test123'' []"] parts
    by (simp add: send_request_def absent_def)
  have r3: "validateMessage (send_request ''wrong-channel'' ''test-nonce'') ttlChannel member_did
      = \<lparr>valid = False, error = Some ''Channel ID mismatch''\<rparr>"
    using validateMessage_rules [of member_did ttlChannel
        "send_request ''wrong-channel'' ''test-nonce''"] parts cid
    by (simp add: send_request_def absent_def)
  have r4: "validateMessage (send_request ''ch-test123'' ''test-nonce'') ttlChannel member_did
      = \<lparr>valid = True, error = None\<rparr>"
    using validateMessage_rules [of member_did ttlChannel
        "send_request ''ch-test123'' ''test-nonce''"] parts cid
    by (simp add: send_request_def absent_def)
  have r5: "post_message (replicate 16 7) 1700000000500 sample_storage (Some stranger_did)
        ''ch-test123'' (Inr (send_request ''ch-test123'' ''test-nonce''))
      = (\<lparr>resp_status = 400, resp_success = False, resp_data = None,
          resp_error = Some ''Not a channel participant''\<rparr>, sample_storage)"
    using validateMessage_rules [of stranger_did ttlChannel
        "send_request ''ch-test123'' ''test-nonce''" sample_storage "Some stranger_did"
        "agent_named stranger_did ''stranger-public-key''" "''ch-test123''"
        "replicate 16 7" 1700000000500] agent channel who r1
    by simp
  from r1 r2 r3 r4 r5 show ?thesis by blast
qed

section \<open>Message listing\<close>


lemma length_slice0: "0 < n \<Longrightarrow> int (length (slice0 xs n)) \<le> n"
  by (simp add: slice0_def)





lemma getChannelMessages_length:
  "option_field opts opt_limit = Some n \<Longrightarrow> 0 < n
     \<Longrightarrow> int (length (getChannelMessages st cid opts)) \<le> n"
  by (simp add: getChannelMessages_def Let_def truthy_num_def length_slice0)

text \<open>
  Through the route the limit is 50 when the query gives none, and never above 100: a
  request with no limit or a positive one receives at most that many messages.
\<close>

lemma get_messages_capped:
  assumes "resp_data (get_messages st header cid q_limit q_before q_after) = Some ms"
    and "q_limit = None \<or> (\<exists>n > 0. q_limit = Some n)"
  shows "int (length ms) \<le> min (case q_limit of None \<Rightarrow> 50 | Some n \<Rightarrow> n) 100"
proof -
  let ?limit = "min (case q_limit of None \<Rightarrow> 50 | Some n \<Rightarrow> n) 100"
  let ?opts = "Some \<lparr>opt_limit = Some ?limit, opt_before = q_before, opt_after = q_after\<rparr>"
  from assms(2) have pos: "0 < ?limit" by auto
  have field: "option_field ?opts opt_limit = Some ?limit"
    by (simp add: option_field_def)
  from assms(1) have "ms = getChannelMessages st cid ?opts"
    by (auto simp: get_messages_def failure_def Let_def split: option.splits if_splits)
  with getChannelMessages_length [OF field pos] show ?thesis by simp
qed




end
